theory Spec2Isabelle
  imports Main "HOL-Library.Word"
begin

section \<open>Python values used by the command engine\<close>

text \<open>
  The engine of \<^verbatim>\<open>mytest_multihost/ssh_command.py\<close> and
  \<^verbatim>\<open>pytest_multihost/ssh_command.py\<close> works on three kinds of Python values:
  command words (\<^verbatim>\<open>str\<close>, modelled as \<^typ>\<open>string\<close>; the tokenizer below tells
  only seven ASCII characters apart from all others), raw output (\<^verbatim>\<open>bytes\<close>, a list of
  8-bit words) and decoded output (\<^verbatim>\<open>str\<close> as a list of Unicode code points).
  Every exception the modelled code can raise is a constructor of \<open>error\<close>.
\<close>

type_synonym bytes = "8 word list"

type_synonym unicode = "nat list"

datatype error =
    ValueError string
  | TypeError
  | UnicodeDecodeError
  | UnicodeEncodeError
  | LookupError
  | AttributeError
  | IOError

text \<open>What \<^verbatim>\<open>stdout_text\<close> and \<^verbatim>\<open>get_file_contents\<close> can return: text, bytes or
  \<^verbatim>\<open>None\<close>.\<close>

datatype pyval = Str unicode | Bytes bytes | PyNone

section \<open>\<^verbatim>\<open>shlex.split\<close>\<close>

text \<open>
  \<^verbatim>\<open>shlex.split(s)\<close> is the standard library's
  \<^verbatim>\<open>lex = shlex(s, posix=True); lex.whitespace_split = True; lex.commenters = ''; list(lex)\<close>.
  The character classes are those of \<^verbatim>\<open>shlex.__init__\<close>.
\<close>

definition whitespace :: string where
  "whitespace = [CHR '' '', CHR 0x09, CHR 0x0D, CHR 0x0A]"

definition quotes :: string where
  "quotes = [CHR 0x27, CHR 0x22]"

definition escape :: string where
  "escape = [CHR 0x5C]"

definition escapedquotes :: string where
  "escapedquotes = [CHR 0x22]"

text \<open>
  \<open>emit\<close> is the end of \<^verbatim>\<open>read_token\<close>: \<^verbatim>\<open>result = self.token\<close>, and
  \<^verbatim>\<open>if self.posix and not quoted and result == '': result = None\<close>, which ends the iteration.
\<close>

definition emit :: "bool \<Rightarrow> string \<Rightarrow> string list" where
  "emit quoted token = (if \<not> quoted \<and> token = [] then [] else [token])"

definition cons_token :: "string \<Rightarrow> error + string list \<Rightarrow> error + string list" where
  "cons_token t r = (case r of Inl e \<Rightarrow> Inl e | Inr ts \<Rightarrow> Inr (t # ts))"

text \<open>
  \<open>read_tokens state escapedstate quoted token input\<close> runs \<^verbatim>\<open>read_token\<close> over the rest
  of the input, once per character (\<^verbatim>\<open>nextchar = self.instream.read(1)\<close>), and starts the next
  \<^verbatim>\<open>read_token\<close> (with \<^verbatim>\<open>quoted = False\<close>, \<^verbatim>\<open>escapedstate = ' '\<close> and an empty
  token) wherever the Python breaks out of its loop to return a token. The state is the
  character Python keeps in \<^verbatim>\<open>self.state\<close>: a blank between words, \<^verbatim>\<open>'a'\<close> inside a
  word, the open quote inside quotes, the backslash after an escape. The branches for
  commenters and punctuation characters are absent, both strings being empty; with
  \<^verbatim>\<open>whitespace_split\<close> set, the \<^verbatim>\<open>wordchars\<close> branch and the last branch do the same
  thing, and are one branch here.
\<close>

fun read_tokens :: "char \<Rightarrow> char \<Rightarrow> bool \<Rightarrow> string \<Rightarrow> string \<Rightarrow> error + string list" where
  "read_tokens state escapedstate quoted token [] =
     (if state \<in> set quotes then Inl (ValueError ''No closing quotation'')
      else if state \<in> set escape then Inl (ValueError ''No escaped character'')
      else Inr (emit quoted token))"
| "read_tokens state escapedstate quoted token (nextchar # rest) =
     (if state = CHR '' '' then
        (if nextchar \<in> set whitespace then
           (if token \<noteq> [] \<or> quoted
            then cons_token token (read_tokens CHR '' '' CHR '' '' False [] rest)
            else read_tokens state escapedstate quoted token rest)
         else if nextchar \<in> set escape then
           read_tokens nextchar CHR ''a'' quoted token rest
         else if nextchar \<in> set quotes then
           read_tokens nextchar escapedstate quoted token rest
         else read_tokens CHR ''a'' escapedstate quoted [nextchar] rest)
      else if state \<in> set quotes then
        (if nextchar = state then
           read_tokens CHR ''a'' escapedstate True token rest
         else if nextchar \<in> set escape \<and> state \<in> set escapedquotes then
           read_tokens nextchar state True token rest
         else read_tokens state escapedstate True (token @ [nextchar]) rest)
      else if state \<in> set escape then
        (if escapedstate \<in> set quotes \<and> nextchar \<noteq> state \<and> nextchar \<noteq> escapedstate
         then read_tokens escapedstate escapedstate quoted (token @ [state] @ [nextchar]) rest
         else read_tokens escapedstate escapedstate quoted (token @ [nextchar]) rest)
      else
        (if nextchar \<in> set whitespace then
           (if token \<noteq> [] \<or> quoted
            then cons_token token (read_tokens CHR '' '' CHR '' '' False [] rest)
            else read_tokens CHR '' '' escapedstate quoted token rest)
         else if nextchar \<in> set quotes then
           read_tokens nextchar escapedstate quoted token rest
         else if nextchar \<in> set escape then
           read_tokens nextchar CHR ''a'' quoted token rest
         else read_tokens state escapedstate quoted (token @ [nextchar]) rest))"

definition shlex_split :: "string \<Rightarrow> error + string list" where
  "shlex_split s = read_tokens CHR '' '' CHR '' '' False [] s"

section \<open>The launcher's argument vector (\<^verbatim>\<open>SSHCommand.__init__\<close>, lines 19 to 47)\<close>

text \<open>The \<^verbatim>\<open>command\<close> argument: absent (\<^verbatim>\<open>None\<close>, the default), a string or a
  Popen-style list.\<close>

datatype command = CmdNone | CmdStr string | CmdList "string list"

definition and_then :: "error + 'a \<Rightarrow> ('a \<Rightarrow> error + 'b) \<Rightarrow> error + 'b" where
  "and_then r f = (case r of Inl e \<Rightarrow> Inl e | Inr x \<Rightarrow> f x)"

text \<open>\<^verbatim>\<open>list(map(f, xs))\<close> for an \<open>f\<close> that may raise: the first exception, from the left,
  ends the construction.\<close>

fun map_raising :: "('a \<Rightarrow> error + 'b) \<Rightarrow> 'a list \<Rightarrow> error + 'b list" where
  "map_raising f [] = Inr []"
| "map_raising f (x # xs) =
     (case f x of
        Inl e \<Rightarrow> Inl e
      | Inr y \<Rightarrow> (case map_raising f xs of Inl e \<Rightarrow> Inl e | Inr ys \<Rightarrow> Inr (y # ys)))"

text \<open>The format string of lines 27 to 35, with its three fields filled in.\<close>

definition ssh_template :: "string \<Rightarrow> string \<Rightarrow> string \<Rightarrow> string" where
  "ssh_template user identity hname =
     ''ssh -T '' @
     ''-l '' @ user @ '' '' @
     ''-i '' @ identity @ '' '' @
     ''-o UserKnownHostsFile=/dev/null '' @
     ''-o ControlMaster=auto '' @
     ''-o StrictHostKeyChecking=no '' @
     ''-o ControlPersist=10m '' @
     ''-o ControlPath=/tmp/mytest-%r@%h:%p'' @
     '' '' @ hname"

text \<open>Line 40: \<^verbatim>\<open>lambda x: x if len(shlex.split(x)) == 1 else '"{}"'.format(x)\<close>.\<close>

definition requote :: "string \<Rightarrow> error + string" where
  "requote x =
     (case shlex_split x of
        Inl e \<Rightarrow> Inl e
      | Inr ws \<Rightarrow> Inr (if length ws = 1 then x else [CHR 0x22] @ x @ [CHR 0x22]))"

text \<open>\<^verbatim>\<open>x.replace('\\', '\\\\')\<close>: the pattern is the one-character string holding a
  backslash, the replacement holds two.\<close>

definition replace_backslash :: "string \<Rightarrow> string" where
  "replace_backslash x = concat (map (\<lambda>c. if c = CHR 0x5C then [CHR 0x5C, CHR 0x5C] else [c]) x)"

text \<open>Line 47: \<^verbatim>\<open>x.replace('\\', '\\\\').replace('\\', '\\\\')\<close>.\<close>

definition escape_twice :: "string \<Rightarrow> string" where
  "escape_twice x = replace_backslash (replace_backslash x)"

text \<open>
  Lines 19 to 47, the vector handed to \<^verbatim>\<open>Popen\<close>. \<^verbatim>\<open>ssh_cmd += command\<close> with
  \<^verbatim>\<open>command = None\<close> raises \<^verbatim>\<open>TypeError\<close>; it stands after the split of the template,
  whose exception therefore comes first.
\<close>

definition assembled :: "string \<Rightarrow> string \<Rightarrow> string option \<Rightarrow> command \<Rightarrow> error + string list" where
  "assembled hname user identity command =
     and_then (case command of CmdStr s \<Rightarrow> and_then (shlex_split s) (\<lambda>ws. Inr (CmdList ws))
               | _ \<Rightarrow> Inr command) (\<lambda>command.
     let identity = (case identity of None \<Rightarrow> ''~/.ssh/id_rsa'' | Some i \<Rightarrow> i) in
     and_then (shlex_split (ssh_template user identity hname)) (\<lambda>ssh_cmd.
     (case command of CmdList ws \<Rightarrow> Inr (ssh_cmd @ ws) | _ \<Rightarrow> Inl TypeError)))"

definition ssh_cmd_of :: "string \<Rightarrow> string \<Rightarrow> string option \<Rightarrow> command \<Rightarrow> error + string list" where
  "ssh_cmd_of hname user identity command =
     and_then (assembled hname user identity command) (\<lambda>ssh_cmd.
     and_then (map_raising requote ssh_cmd) (\<lambda>ssh_cmd.
     Inr (map escape_twice ssh_cmd)))"

section \<open>Codecs\<close>

text \<open>
  \<^verbatim>\<open>bytes.decode(encoding)\<close> and \<^verbatim>\<open>str.encode(encoding)\<close> belong to Python, not to the
  repository: the engine takes them as a parameter, a function from the encoding's name.
  \<^verbatim>\<open>data.decode()\<close> and \<^verbatim>\<open>value.encode()\<close> without an argument use \<^verbatim>\<open>'utf-8'\<close>.
\<close>

record codecs =
  decode :: "string \<Rightarrow> bytes \<Rightarrow> error + unicode"
  encode :: "string \<Rightarrow> unicode \<Rightarrow> error + bytes"

text \<open>\<^verbatim>\<open>if self.encoding:\<close> holds for a non-empty string; otherwise the default applies.\<close>

definition encoding_or_default :: "string option \<Rightarrow> string" where
  "encoding_or_default e = (case e of None \<Rightarrow> ''utf-8'' | Some n \<Rightarrow> if n \<noteq> [] then n else ''utf-8'')"

definition configured :: "string option \<Rightarrow> bool" where
  "configured e = (case e of None \<Rightarrow> False | Some n \<Rightarrow> n \<noteq> [])"

text \<open>
  One concrete registry, for evaluating the engine on concrete inputs: strict UTF-8 and
  ASCII; every other name is unknown (\<^verbatim>\<open>LookupError\<close>). \<open>utf8_run needed cp lo hi\<close> reads
  a byte sequence with \<open>needed\<close> continuation bytes outstanding, the next of which must lie
  in \<open>lo..hi\<close> (this excludes overlong forms, surrogates and code points beyond
  \<^verbatim>\<open>U+10FFFF\<close>).
\<close>

fun utf8_run :: "nat \<Rightarrow> nat \<Rightarrow> 8 word \<Rightarrow> 8 word \<Rightarrow> bytes \<Rightarrow> unicode option" where
  "utf8_run needed cp lo hi [] = (if needed = 0 then Some [] else None)"
| "utf8_run needed cp lo hi (b # bs) =
     (if needed = 0 then
        (if b \<le> 0x7F then map_option ((#) (unat b)) (utf8_run 0 0 0x80 0xBF bs)
         else if 0xC2 \<le> b \<and> b \<le> 0xDF then utf8_run 1 (unat b - 0xC0) 0x80 0xBF bs
         else if 0xE0 \<le> b \<and> b \<le> 0xEF then
           utf8_run 2 (unat b - 0xE0) (if b = 0xE0 then 0xA0 else 0x80) (if b = 0xED then 0x9F else 0xBF) bs
         else if 0xF0 \<le> b \<and> b \<le> 0xF4 then
           utf8_run 3 (unat b - 0xF0) (if b = 0xF0 then 0x90 else 0x80) (if b = 0xF4 then 0x8F else 0xBF) bs
         else None)
      else if lo \<le> b \<and> b \<le> hi then
        (if needed = 1 then map_option ((#) (cp * 64 + (unat b - 0x80))) (utf8_run 0 0 0x80 0xBF bs)
         else utf8_run (needed - 1) (cp * 64 + (unat b - 0x80)) 0x80 0xBF bs)
      else None)"

definition utf8_bytes :: "nat \<Rightarrow> bytes option" where
  "utf8_bytes cp =
     (if cp < 0x80 then Some [of_nat cp]
      else if cp < 0x800 then Some [of_nat (0xC0 + cp div 64), of_nat (0x80 + cp mod 64)]
      else if 0xD800 \<le> cp \<and> cp \<le> 0xDFFF then None
      else if cp < 0x10000 then
        Some [of_nat (0xE0 + cp div 4096), of_nat (0x80 + cp div 64 mod 64), of_nat (0x80 + cp mod 64)]
      else if cp < 0x110000 then
        Some [of_nat (0xF0 + cp div 262144), of_nat (0x80 + cp div 4096 mod 64),
              of_nat (0x80 + cp div 64 mod 64), of_nat (0x80 + cp mod 64)]
      else None)"

fun encode_all :: "(nat \<Rightarrow> bytes option) \<Rightarrow> unicode \<Rightarrow> error + bytes" where
  "encode_all f [] = Inr []"
| "encode_all f (cp # cps) =
     (case f cp of
        None \<Rightarrow> Inl UnicodeEncodeError
      | Some bs \<Rightarrow> (case encode_all f cps of Inl e \<Rightarrow> Inl e | Inr r \<Rightarrow> Inr (bs @ r)))"

definition std_decode :: "string \<Rightarrow> bytes \<Rightarrow> error + unicode" where
  "std_decode name bs =
     (if name = ''utf-8'' then
        (case utf8_run 0 0 0x80 0xBF bs of None \<Rightarrow> Inl UnicodeDecodeError | Some t \<Rightarrow> Inr t)
      else if name = ''ascii'' then
        (if list_all (\<lambda>b. b \<le> 0x7F) bs then Inr (map unat bs) else Inl UnicodeDecodeError)
      else Inl LookupError)"

definition std_encode :: "string \<Rightarrow> unicode \<Rightarrow> error + bytes" where
  "std_encode name t =
     (if name = ''utf-8'' then encode_all utf8_bytes t
      else if name = ''ascii'' then encode_all (\<lambda>cp. if cp < 0x80 then Some [of_nat cp] else None) t
      else Inl LookupError)"

definition std_codecs :: codecs where
  "std_codecs = \<lparr>decode = std_decode, encode = std_encode\<rparr>"

section \<open>The running command (\<^verbatim>\<open>SSHCommand\<close>)\<close>

text \<open>
  What the remote process will do: the chunks successive \<^verbatim>\<open>read()\<close> calls on its two
  output pipes return before end of file (where \<^verbatim>\<open>read()\<close> returns \<^verbatim>\<open>b''\<close>), and the
  exit status it reports. Failures of the operating system (\<^verbatim>\<open>Popen\<close> not finding
  \<^verbatim>\<open>ssh\<close>, a broken pipe on a write) and a process that never ends are outside this model.
\<close>

record remote_run =
  run_stdout :: "bytes list"
  run_stderr :: "bytes list"
  run_exit :: int

text \<open>The \<^verbatim>\<open>Popen\<close> handle \<^verbatim>\<open>self.cmd\<close>: its argument vector, its three pipes and the
  status \<^verbatim>\<open>self.cmd.wait()\<close> returns.\<close>

record popen =
  args :: "string list"
  stdin_closed :: bool
  stdin_written :: bytes
  stdout_pipe :: "bytes list"
  stdout_closed :: bool
  stderr_pipe :: "bytes list"
  stderr_closed :: bool
  exit_status :: int

definition Popen :: "string list \<Rightarrow> remote_run \<Rightarrow> popen" where
  "Popen ssh_cmd run =
     \<lparr>args = ssh_cmd, stdin_closed = False, stdin_written = [],
      stdout_pipe = run_stdout run, stdout_closed = False,
      stderr_pipe = run_stderr run, stderr_closed = False,
      exit_status = run_exit run\<rparr>"

text \<open>What reaches the logger: the messages of \<^verbatim>\<open>SSHCommand.log\<close> (prefixed
  \<^verbatim>\<open>CMD\<close>) and those of the host.\<close>

datatype log_entry =
    CMD_argv "string list"
  | CMD_RETURNCODE "int option"
  | CMD_STDERR unicode
  | STAT string
  | GET string
  | PUT string
  | MKDIR string
  | RETURNCODE "int option"
  | STDERR unicode

text \<open>The calls a command makes on its process handle, its two threads and its logger, in
  the order it makes them.\<close>

datatype event =
    StdinWrite bytes
  | StdinFlush
  | StdinClose
  | OutThreadJoin
  | StdoutClose
  | ErrThreadJoin
  | StderrClose
  | ProcessWait
  | Log log_entry

text \<open>
  The fields of \<^verbatim>\<open>SSHCommand\<close>. \<open>logger\<close> tells whether a logger was given.
  \<open>out_alive\<close> and \<open>err_alive\<close> are the two drainer threads: alive until their
  \<^verbatim>\<open>_do_recv\<close> returns. Each thread appends to the list object it was started with;
  \<open>out_rebound\<close> holds once \<^verbatim>\<open>self.out_data\<close> has been bound to another list (by the
  setter of \<^verbatim>\<open>stdout_text\<close>), which the stdout thread does not see. \<open>trace\<close> records
  the events.
\<close>

record ssh_command =
  logger :: bool
  encoding :: "string option"
  returncode :: "int option"
  out_data :: "bytes list"
  err_data :: "bytes list"
  cmd :: popen
  out_alive :: bool
  err_alive :: bool
  out_rebound :: bool
  trace :: "event list"

text \<open>\<^verbatim>\<open>log\<close>: \<^verbatim>\<open>if self.logger: self.logger.debug("CMD {}".format(msg))\<close>
  (\<^verbatim>\<open>info\<close> in \<^verbatim>\<open>pytest_multihost\<close>).\<close>

definition log :: "log_entry \<Rightarrow> ssh_command \<Rightarrow> ssh_command" where
  "log msg c = (if logger c then c\<lparr>trace := trace c @ [Log msg]\<rparr> else c)"

text \<open>
  \<^verbatim>\<open>__init__\<close>: the vector is built and logged, the process is spawned with the behaviour
  \<open>spawn\<close> gives it, and the two threads are started. \<open>user = None\<close> is a call that leaves
  the keyword \<^verbatim>\<open>user\<close> out, for which the signature has \<^verbatim>\<open>user="root"\<close>. \<open>enc\<close> is the
  keyword \<^verbatim>\<open>encoding\<close> (\<^verbatim>\<open>'utf-8'\<close> in a call that leaves it out), \<open>lg\<close> tells whether
  a logger is passed.
\<close>

definition SSHCommand ::
  "(string list \<Rightarrow> remote_run) \<Rightarrow> string \<Rightarrow> string option \<Rightarrow> string option \<Rightarrow> command
     \<Rightarrow> string option \<Rightarrow> bool \<Rightarrow> error + ssh_command" where
  "SSHCommand spawn hname user identity command enc lg =
     (let user = (case user of None \<Rightarrow> ''root'' | Some u \<Rightarrow> u) in
      and_then (ssh_cmd_of hname user identity command) (\<lambda>ssh_cmd.
      Inr (log (CMD_argv ssh_cmd)
        \<lparr>logger = lg, encoding = enc, returncode = None, out_data = [], err_data = [],
         cmd = Popen ssh_cmd (spawn ssh_cmd), out_alive = True, err_alive = True,
         out_rebound = False, trace = []\<rparr>)))"

text \<open>
  \<^verbatim>\<open>_do_recv(stream, store)\<close> (\<^verbatim>\<open>_do_recv_data\<close> in \<^verbatim>\<open>pytest_multihost\<close>): read until
  \<^verbatim>\<open>read()\<close> returns \<^verbatim>\<open>b''\<close>, appending every other chunk. The result is what is left
  in the pipe, and the store.
\<close>

fun do_recv :: "bytes list \<Rightarrow> bytes list \<Rightarrow> bytes list \<times> bytes list" where
  "do_recv [] store = ([], store)"
| "do_recv (data # stream) store =
     (if data = [] then (stream, store) else do_recv stream (store @ [data]))"

text \<open>One iteration of a drainer thread's loop, as the scheduler may run it at any moment
  before the thread is joined.\<close>

definition out_thread_step :: "ssh_command \<Rightarrow> ssh_command" where
  "out_thread_step c =
     (if \<not> out_alive c then c
      else (case stdout_pipe (cmd c) of
              [] \<Rightarrow> c\<lparr>out_alive := False\<rparr>
            | data # stream \<Rightarrow>
                if data = [] then c\<lparr>cmd := (cmd c)\<lparr>stdout_pipe := stream\<rparr>, out_alive := False\<rparr>
                else if out_rebound c then c\<lparr>cmd := (cmd c)\<lparr>stdout_pipe := stream\<rparr>\<rparr>
                else c\<lparr>cmd := (cmd c)\<lparr>stdout_pipe := stream\<rparr>, out_data := out_data c @ [data]\<rparr>))"

definition err_thread_step :: "ssh_command \<Rightarrow> ssh_command" where
  "err_thread_step c =
     (if \<not> err_alive c then c
      else (case stderr_pipe (cmd c) of
              [] \<Rightarrow> c\<lparr>err_alive := False\<rparr>
            | data # stream \<Rightarrow>
                if data = [] then c\<lparr>cmd := (cmd c)\<lparr>stderr_pipe := stream\<rparr>, err_alive := False\<rparr>
                else c\<lparr>cmd := (cmd c)\<lparr>stderr_pipe := stream\<rparr>, err_data := err_data c @ [data]\<rparr>))"

text \<open>\<^verbatim>\<open>self.out_thread.join()\<close>: the caller blocks until the thread's \<^verbatim>\<open>_do_recv\<close> has
  returned; joining a finished thread returns at once.\<close>

definition out_thread_join :: "ssh_command \<Rightarrow> ssh_command" where
  "out_thread_join c =
     (let c = c\<lparr>trace := trace c @ [OutThreadJoin]\<rparr> in
      if out_alive c then
        (case do_recv (stdout_pipe (cmd c)) (out_data c) of
           (stream, store) \<Rightarrow>
             c\<lparr>cmd := (cmd c)\<lparr>stdout_pipe := stream\<rparr>,
               out_data := (if out_rebound c then out_data c else store), out_alive := False\<rparr>)
      else c)"

definition err_thread_join :: "ssh_command \<Rightarrow> ssh_command" where
  "err_thread_join c =
     (let c = c\<lparr>trace := trace c @ [ErrThreadJoin]\<rparr> in
      if err_alive c then
        (case do_recv (stderr_pipe (cmd c)) (err_data c) of
           (stream, store) \<Rightarrow>
             c\<lparr>cmd := (cmd c)\<lparr>stderr_pipe := stream\<rparr>, err_data := store, err_alive := False\<rparr>)
      else c)"

definition stdin_close :: "ssh_command \<Rightarrow> ssh_command" where
  "stdin_close c = c\<lparr>cmd := (cmd c)\<lparr>stdin_closed := True\<rparr>, trace := trace c @ [StdinClose]\<rparr>"

definition stdout_close :: "ssh_command \<Rightarrow> ssh_command" where
  "stdout_close c = c\<lparr>cmd := (cmd c)\<lparr>stdout_closed := True\<rparr>, trace := trace c @ [StdoutClose]\<rparr>"

definition stderr_close :: "ssh_command \<Rightarrow> ssh_command" where
  "stderr_close c = c\<lparr>cmd := (cmd c)\<lparr>stderr_closed := True\<rparr>, trace := trace c @ [StderrClose]\<rparr>"

text \<open>\<^verbatim>\<open>self.cmd.wait()\<close>: the status of the process, the same at every call.\<close>

definition cmd_wait :: "ssh_command \<Rightarrow> int \<times> ssh_command" where
  "cmd_wait c = (exit_status (cmd c), c\<lparr>trace := trace c @ [ProcessWait]\<rparr>)"

text \<open>The two output accessors, alike in both packages.\<close>

definition stdout_text :: "codecs \<Rightarrow> ssh_command \<Rightarrow> error + pyval" where
  "stdout_text py c =
     (case returncode c of
        None \<Rightarrow> Inr (Str [])
      | Some _ \<Rightarrow>
          (let stdout = concat (out_data c) in
           if configured (encoding c) then
             (case decode py (encoding_or_default (encoding c)) stdout of
                Inr t \<Rightarrow> Inr (Str t)
              | Inl UnicodeDecodeError \<Rightarrow> Inr (Bytes stdout)
              | Inl e \<Rightarrow> Inl e)
           else Inr (Bytes stdout)))"

definition stderr_text :: "codecs \<Rightarrow> ssh_command \<Rightarrow> error + unicode" where
  "stderr_text py c =
     (case returncode c of
        None \<Rightarrow> Inr []
      | Some _ \<Rightarrow>
          (if configured (encoding c)
           then decode py (encoding_or_default (encoding c)) (concat (err_data c))
           else decode py ''utf-8'' (concat (err_data c))))"

text \<open>The setter of \<^verbatim>\<open>stdout_text\<close> (\<^verbatim>\<open>mytest_multihost\<close> only, lines 146 to 152):
  \<^verbatim>\<open>self.out_data\<close> is bound to a new empty list before the value is encoded.\<close>

definition set_stdout_text :: "codecs \<Rightarrow> unicode \<Rightarrow> ssh_command \<Rightarrow> (error + unit) \<times> ssh_command" where
  "set_stdout_text py v c =
     (let c = c\<lparr>out_data := [], out_rebound := True\<rparr> in
      case encode py (encoding_or_default (encoding c)) v of
        Inl e \<Rightarrow> (Inl e, c)
      | Inr b \<Rightarrow> (Inr (), c\<lparr>out_data := out_data c @ [b]\<rparr>))"

text \<open>The argument of \<^verbatim>\<open>send\<close>: \<^verbatim>\<open>None\<close>, a string or bytes.\<close>

datatype pydata = NoData | Text unicode | Raw bytes

definition falsy :: "pydata \<Rightarrow> bool" where
  "falsy d = (case d of NoData \<Rightarrow> True | Text t \<Rightarrow> t = [] | Raw b \<Rightarrow> b = [])"

text \<open>\<^verbatim>\<open>send\<close>. Writing to the closed pipe raises \<^verbatim>\<open>ValueError\<close>.\<close>

definition send :: "codecs \<Rightarrow> pydata \<Rightarrow> ssh_command \<Rightarrow> (error + unit) \<times> ssh_command" where
  "send py d c =
     (if falsy d then (Inr (), c)
      else
        (case (case d of Raw b \<Rightarrow> Inr b
               | Text t \<Rightarrow> encode py (encoding_or_default (encoding c)) t
               | NoData \<Rightarrow> Inr []) of
           Inl e \<Rightarrow> (Inl e, c)
         | Inr b \<Rightarrow>
             if stdin_closed (cmd c) then (Inl (ValueError ''write to closed file''), c)
             else (Inr (), c\<lparr>cmd := (cmd c)\<lparr>stdin_written := stdin_written (cmd c) @ b\<rparr>,
                            trace := trace c @ [StdinWrite b, StdinFlush]\<rparr>)))"

text \<open>Lines 116 to 122 of \<^verbatim>\<open>mytest_multihost\<close>, 151 to 157 of \<^verbatim>\<open>pytest_multihost\<close>: the
  body both \<^verbatim>\<open>wait\<close> methods share.\<close>

definition finalize :: "ssh_command \<Rightarrow> ssh_command" where
  "finalize c =
     (let c = stdin_close c;
          c = out_thread_join c;
          c = stdout_close c;
          c = err_thread_join c;
          c = stderr_close c
      in case cmd_wait c of (rc, c) \<Rightarrow> c\<lparr>returncode := Some rc\<rparr>)"

text \<open>\<^verbatim>\<open>not self.returncode\<close> holds for \<^verbatim>\<open>None\<close> and for \<^verbatim>\<open>0\<close>.\<close>

definition not_returncode :: "int option \<Rightarrow> bool" where
  "not_returncode r = (case r of None \<Rightarrow> True | Some n \<Rightarrow> n = 0)"

text \<open>
  \<^verbatim>\<open>wait\<close> of \<^verbatim>\<open>mytest_multihost/ssh_command.py\<close>. The argument of the second
  \<^verbatim>\<open>self.log\<close> is evaluated whether or not a logger is there, so an exception of
  \<^verbatim>\<open>stderr_text\<close> leaves \<^verbatim>\<open>wait\<close>, with the return code already stored. The result
  is \<^verbatim>\<open>self.returncode\<close>.
\<close>

definition wait :: "codecs \<Rightarrow> ssh_command \<Rightarrow> (error + int option) \<times> ssh_command" where
  "wait py c =
     (if not_returncode (returncode c) then
        (let c = finalize c;
             c = log (CMD_RETURNCODE (returncode c)) c
         in if \<not> not_returncode (returncode c) then
              (case stderr_text py c of
                 Inl e \<Rightarrow> (Inl e, c)
               | Inr t \<Rightarrow> (let c = log (CMD_STDERR t) c in (Inr (returncode c), c)))
            else (Inr (returncode c), c))
      else (Inr (returncode c), c))"

text \<open>\<^verbatim>\<open>wait\<close> of \<^verbatim>\<open>pytest_multihost/ssh_command.py\<close>, which logs nothing.\<close>

definition pytest_wait :: "ssh_command \<Rightarrow> int option \<times> ssh_command" where
  "pytest_wait c =
     (if not_returncode (returncode c) then (let c = finalize c in (returncode c, c))
      else (returncode c, c))"

text \<open>
  What can happen to a command object: a call of one of its public methods, or one iteration
  of one of its drainer threads. \<open>perform\<close> gives the object afterwards, whether the call
  returned or raised. The two packages differ in \<^verbatim>\<open>wait\<close> and in the setter of
  \<^verbatim>\<open>stdout_text\<close>, which \<^verbatim>\<open>pytest_multihost\<close> does not have (the assignment raises
  \<^verbatim>\<open>AttributeError\<close> there and changes nothing).
\<close>

datatype package = Mytest | Pytest

datatype action =
    Send pydata
  | Wait
  | GetStdout
  | GetStderr
  | SetStdout unicode
  | LogMsg log_entry
  | OutThreadStep
  | ErrThreadStep

definition perform :: "package \<Rightarrow> codecs \<Rightarrow> action \<Rightarrow> ssh_command \<Rightarrow> ssh_command" where
  "perform pkg py a c =
     (case a of
        Send d \<Rightarrow> snd (send py d c)
      | Wait \<Rightarrow> (case pkg of Mytest \<Rightarrow> snd (wait py c) | Pytest \<Rightarrow> snd (pytest_wait c))
      | GetStdout \<Rightarrow> c
      | GetStderr \<Rightarrow> c
      | SetStdout v \<Rightarrow> (case pkg of Mytest \<Rightarrow> snd (set_stdout_text py v c) | Pytest \<Rightarrow> c)
      | LogMsg m \<Rightarrow> log m c
      | OutThreadStep \<Rightarrow> out_thread_step c
      | ErrThreadStep \<Rightarrow> err_thread_step c)"

text \<open>
  A finalized command: the return code is stored, it is the status of the process, and both
  drainer threads have returned. \<open>close_sequence\<close> is what \<^verbatim>\<open>wait\<close> does before it stores
  the return code.
\<close>

definition finalized :: "ssh_command \<Rightarrow> bool" where
  "finalized c = (returncode c = Some (exit_status (cmd c)) \<and> \<not> out_alive c \<and> \<not> err_alive c)"

definition close_sequence :: "event list" where
  "close_sequence = [StdinClose, OutThreadJoin, StdoutClose, ErrThreadJoin, StderrClose, ProcessWait]"

text \<open>The characters \<^verbatim>\<open>shlex\<close> treats specially, and a plain word: a non-empty string
  with none of them.\<close>

definition plain_char :: "char \<Rightarrow> bool" where
  "plain_char ch = (ch \<notin> set whitespace \<and> ch \<notin> set quotes \<and> ch \<notin> set escape)"

definition plain :: "string \<Rightarrow> bool" where
  "plain w = (w \<noteq> [] \<and> list_all plain_char w)"

section \<open>The host (\<^verbatim>\<open>pytest_multihost/host.py\<close>)\<close>

text \<open>The fields of \<^verbatim>\<open>BaseHost\<close> the command methods read. \<^verbatim>\<open>command_prelude\<close> is
  \<^verbatim>\<open>''\<close> for \<^verbatim>\<open>BaseHost\<close> and \<^verbatim>\<open>'set -e'\<close> for \<^verbatim>\<open>Host\<close>.\<close>

record host =
  hostname :: string
  ssh_username :: string
  ssh_key_filename :: "string option"
  test_dir :: string
  env_sh_path :: string
  command_prelude :: string

text \<open>
  What the host's methods change: the argument vectors of the processes spawned so far and
  the host's log. The remote side is a parameter \<open>remote\<close>: from the vectors spawned before
  and the new vector to what the new process does.
\<close>

record host_state =
  spawned :: "string list list"
  hlog :: "log_entry list"

type_synonym remote = "string list list \<Rightarrow> string list \<Rightarrow> remote_run"

fun logged :: "event list \<Rightarrow> log_entry list" where
  "logged [] = []"
| "logged (Log m # es) = m # logged es"
| "logged (e # es) = logged es"

text \<open>
  \<^verbatim>\<open>_exec_command\<close> (lines 286 to 307). The host passes its own logger to the command, so
  what the command logs is in the host's log. The host imports \<^verbatim>\<open>SSHCommand\<close> from
  \<^verbatim>\<open>pytest_multihost.ssh_command\<close>.
\<close>

definition exec_command ::
  "remote \<Rightarrow> codecs \<Rightarrow> host \<Rightarrow> command \<Rightarrow> pydata \<Rightarrow> bool \<Rightarrow> string option \<Rightarrow> host_state
     \<Rightarrow> (error + ssh_command) \<times> host_state" where
  "exec_command remote py h command stdin_data bg enc st =
     (case SSHCommand (remote (spawned st)) (hostname h) (Some (ssh_username h)) (ssh_key_filename h)
             command enc True of
        Inl e \<Rightarrow> (Inl e, st)
      | Inr c \<Rightarrow>
          (let st = st\<lparr>spawned := spawned st @ [args (cmd c)], hlog := hlog st @ logged (trace c)\<rparr> in
           case (if \<not> falsy stdin_data then send py stdin_data c else (Inr (), c)) of
             (Inl e, c) \<Rightarrow> (Inl e, st)
           | (Inr u, c) \<Rightarrow>
               if \<not> bg then
                 (case pytest_wait c of
                    (r, c) \<Rightarrow>
                      (let st = st\<lparr>hlog := hlog st @ [RETURNCODE (returncode c)]\<rparr> in
                       if \<not> not_returncode (returncode c) then
                         (case stderr_text py c of
                            Inl e \<Rightarrow> (Inl e, st)
                          | Inr t \<Rightarrow> (Inr c, st\<lparr>hlog := hlog st @ [STDERR t]\<rparr>))
                       else (Inr c, st)))
               else (Inr c, st)))"

text \<open>\<^verbatim>\<open>file_exists\<close> (lines 215 to 225).\<close>

definition file_exists ::
  "remote \<Rightarrow> codecs \<Rightarrow> host \<Rightarrow> string \<Rightarrow> host_state \<Rightarrow> (error + bool) \<times> host_state" where
  "file_exists remote py h filename st =
     (let st = st\<lparr>hlog := hlog st @ [STAT filename]\<rparr> in
      case exec_command remote py h (CmdStr (''test -f '' @ filename)) NoData False (Some ''utf-8'') st of
        (Inl e, st) \<Rightarrow> (Inl e, st)
      | (Inr c, st) \<Rightarrow> (Inr (returncode c = Some 0), st))"

text \<open>\<^verbatim>\<open>mkdir\<close> (lines 228 to 230).\<close>

definition mkdir ::
  "remote \<Rightarrow> codecs \<Rightarrow> host \<Rightarrow> string \<Rightarrow> host_state \<Rightarrow> (error + unit) \<times> host_state" where
  "mkdir remote py h path st =
     (let st = st\<lparr>hlog := hlog st @ [MKDIR path]\<rparr> in
      case exec_command remote py h (CmdStr (''mkdir -p '' @ path)) NoData False (Some ''utf-8'') st of
        (Inl e, st) \<Rightarrow> (Inl e, st)
      | (Inr c, st) \<Rightarrow> (Inr (), st))"

text \<open>\<^verbatim>\<open>get_file_contents\<close> (lines 181 to 199).\<close>

definition get_file_contents ::
  "remote \<Rightarrow> codecs \<Rightarrow> host \<Rightarrow> string \<Rightarrow> string option \<Rightarrow> host_state \<Rightarrow> (error + pyval) \<times> host_state" where
  "get_file_contents remote py h filename enc st =
     (case file_exists remote py h filename st of
        (Inl e, st) \<Rightarrow> (Inl e, st)
      | (Inr ex, st) \<Rightarrow>
          if \<not> ex then (Inl IOError, st)
          else
            (let st = st\<lparr>hlog := hlog st @ [GET filename]\<rparr> in
             case exec_command remote py h (CmdStr (''cat '' @ filename)) NoData False None st of
               (Inl e, st) \<Rightarrow> (Inl e, st)
             | (Inr c, st) \<Rightarrow>
                 if \<not> not_returncode (returncode c) then (Inr PyNone, st)
                 else
                   (let contents = concat (out_data c) in
                    if configured enc then
                      (case decode py (encoding_or_default enc) contents of
                         Inl e \<Rightarrow> (Inl e, st)
                       | Inr t \<Rightarrow> (Inr (Str t), st))
                    else (Inr (Bytes contents), st))))"

text \<open>\<^verbatim>\<open>put_file_contents\<close> (lines 202 to 212).\<close>

definition put_file_contents ::
  "remote \<Rightarrow> codecs \<Rightarrow> host \<Rightarrow> string \<Rightarrow> pydata \<Rightarrow> host_state \<Rightarrow> (error + unit) \<times> host_state" where
  "put_file_contents remote py h filename contents st =
     (if falsy contents then (Inr (), st)
      else
        (let st = st\<lparr>hlog := hlog st @ [PUT filename]\<rparr> in
         case exec_command remote py h (CmdStr (''tee 1>>/dev/null '' @ filename)) contents False None st of
           (Inl e, st) \<Rightarrow> (Inl e, st)
         | (Inr c, st) \<Rightarrow> (Inr (), st)))"

text \<open>
  \<^verbatim>\<open>run_command\<close> (lines 240 to 283). The parameters \<^verbatim>\<open>log_stdout\<close> and
  \<^verbatim>\<open>raiseonerr\<close> are arguments here as they are in the source, whose body reads neither.
\<close>

definition run_command ::
  "remote \<Rightarrow> codecs \<Rightarrow> host \<Rightarrow> command \<Rightarrow> bool \<Rightarrow> pydata \<Rightarrow> bool \<Rightarrow> bool \<Rightarrow> string option \<Rightarrow> bool
     \<Rightarrow> host_state \<Rightarrow> (error + ssh_command) \<times> host_state" where
  "run_command remote py h argv set_env stdin_text log_stdout raiseonerr cwd bg st =
     (let cwd = (case cwd of None \<Rightarrow> test_dir h | Some d \<Rightarrow> d) in
      case (if cwd \<noteq> [] then
              (case mkdir remote py h cwd st of
                 (Inl e, st) \<Rightarrow> (Inl e, st)
               | (Inr u, st) \<Rightarrow> (Inr (''cd '' @ cwd @ '' && ''), st))
            else (Inr [], st)) of
        (Inl e, st) \<Rightarrow> (Inl e, st)
      | (Inr cmd_str, st) \<Rightarrow>
          (case (if set_env then file_exists remote py h (env_sh_path h) st else (Inr False, st)) of
             (Inl e, st) \<Rightarrow> (Inl e, st)
           | (Inr ex, st) \<Rightarrow>
               (let cmd_str = (if ex then cmd_str @ ''source '' @ env_sh_path h @ '' && '' else cmd_str);
                    cmd_str = (if command_prelude h \<noteq> []
                               then cmd_str @ command_prelude h @ '' && '' else cmd_str)
                in case (case argv of
                           CmdStr s \<Rightarrow> shlex_split (cmd_str @ ''( '' @ s @ '' )'')
                         | CmdList ws \<Rightarrow>
                             and_then (shlex_split cmd_str) (\<lambda>ps. Inr (ps @ [''(''] @ ws @ ['')'']))
                         | CmdNone \<Rightarrow> and_then (shlex_split cmd_str) (\<lambda>ps. Inl TypeError)) of
                     Inl e \<Rightarrow> (Inl e, st)
                   | Inr ws \<Rightarrow>
                       exec_command remote py h (CmdList ws) stdin_text bg (Some ''utf-8'') st)))"

text \<open>The words of the format string of lines 27 to 35, its three fields filled in.\<close>

definition transport :: "string \<Rightarrow> string \<Rightarrow> string \<Rightarrow> string list" where
  "transport user identity hname =
     [''ssh'', ''-T'', ''-l'', user, ''-i'', identity,
      ''-o'', ''UserKnownHostsFile=/dev/null'',
      ''-o'', ''ControlMaster=auto'',
      ''-o'', ''StrictHostKeyChecking=no'',
      ''-o'', ''ControlPersist=10m'',
      ''-o'', ''ControlPath=/tmp/mytest-%r@%h:%p'', hname]"

section \<open>Facts about the command object\<close>

lemmas step_defs = stdin_close_def out_thread_join_def stdout_close_def err_thread_join_def
  stderr_close_def cmd_wait_def

lemma finalize_trace: "trace (finalize c) = trace c @ close_sequence"
  by (simp add: finalize_def step_defs close_sequence_def Let_def split: prod.splits)

lemma finalize_returncode: "returncode (finalize c) = Some (exit_status (cmd c))"
  by (simp add: finalize_def step_defs Let_def split: prod.splits)

lemma finalize_exit_status: "exit_status (cmd (finalize c)) = exit_status (cmd c)"
  by (simp add: finalize_def step_defs Let_def split: prod.splits)

lemma finalize_threads: "\<not> out_alive (finalize c) \<and> \<not> err_alive (finalize c)"
  by (simp add: finalize_def step_defs Let_def split: prod.splits)

lemma finalize_logger: "logger (finalize c) = logger c"
  by (simp add: finalize_def step_defs Let_def split: prod.splits)

lemma finalize_out_data:
  "out_data (finalize c) =
     (if out_alive c \<and> \<not> out_rebound c
      then snd (do_recv (stdout_pipe (cmd c)) (out_data c)) else out_data c)"
  by (simp add: finalize_def step_defs Let_def split: prod.splits)

lemma finalize_err_data:
  "err_data (finalize c) =
     (if err_alive c then snd (do_recv (stderr_pipe (cmd c)) (err_data c)) else err_data c)"
  by (simp add: finalize_def step_defs Let_def split: prod.splits)

lemma finalize_finalized: "finalized (finalize c)"
  by (simp add: finalized_def finalize_returncode finalize_exit_status finalize_threads)

lemma log_fields:
  "returncode (log m c) = returncode c \<and> out_data (log m c) = out_data c
   \<and> err_data (log m c) = err_data c \<and> encoding (log m c) = encoding c \<and> cmd (log m c) = cmd c
   \<and> out_alive (log m c) = out_alive c \<and> err_alive (log m c) = err_alive c
   \<and> logger (log m c) = logger c"
  by (simp add: log_def)

lemma stderr_text_log: "stderr_text py (log m c) = stderr_text py c"
  by (simp add: stderr_text_def log_fields split: option.split)

lemma log_finalized: "finalized (log m c) = finalized c"
  by (simp add: finalized_def log_fields)

lemma finalize_encoding: "encoding (finalize c) = encoding c"
  by (simp add: finalize_def step_defs Let_def split: prod.splits)

text \<open>A command that \<^verbatim>\<open>__init__\<close> has built is running: no return code, nothing
  accumulated, both threads alive.\<close>

lemma SSHCommand_running:
  assumes "SSHCommand spawn hname user identity command enc lg = Inr c"
  shows "returncode c = None \<and> out_data c = [] \<and> err_data c = [] \<and> encoding c = enc
       \<and> logger c = lg \<and> out_alive c \<and> err_alive c \<and> \<not> out_rebound c
       \<and> stdout_pipe (cmd c) = run_stdout (spawn (args (cmd c)))
       \<and> stderr_pipe (cmd c) = run_stderr (spawn (args (cmd c)))
       \<and> exit_status (cmd c) = run_exit (spawn (args (cmd c)))
       \<and> trace c = (if lg then [Log (CMD_argv (args (cmd c)))] else [])"
  using assms
  by (auto simp: SSHCommand_def and_then_def log_def Popen_def Let_def split: sum.splits)

text \<open>While no chunk is empty, the drainer moves the whole pipe into its store.\<close>

lemma do_recv_all:
  assumes "list_all (\<lambda>data. data \<noteq> []) stream"
  shows "do_recv stream store = ([], store @ stream)"
  using assms by (induction stream arbitrary: store) auto

subsection \<open>Actions on a running command\<close>

lemma perform_keeps_running:
  assumes "returncode c = None" and "a \<noteq> Wait"
  shows "returncode (perform pkg py a c) = None"
  using assms
  by (cases a; cases pkg)
     (simp_all add: perform_def send_def set_stdout_text_def log_def out_thread_step_def
        err_thread_step_def Let_def split: sum.splits list.splits pydata.splits)

lemma fold_keeps_running:
  assumes "returncode c = None" and "Wait \<notin> set as"
  shows "returncode (fold (perform pkg py) as c) = None"
  using assms
proof (induction as arbitrary: c)
  case Nil
  then show ?case by simp
next
  case (Cons a as)
  then have "returncode (perform pkg py a c) = None"
    by (intro perform_keeps_running) auto
  with Cons show ?case by simp
qed

subsection \<open>Actions on a finalized command\<close>

lemma finalize_of_finalized:
  assumes "finalized c"
  shows "out_data (finalize c) = out_data c \<and> err_data (finalize c) = err_data c
       \<and> returncode (finalize c) = returncode c"
  using assms by (simp add: finalized_def finalize_out_data finalize_err_data finalize_returncode)

lemma wait_of_finalized:
  assumes "finalized c"
  shows "out_data (snd (wait py c)) = out_data c \<and> err_data (snd (wait py c)) = err_data c
       \<and> returncode (snd (wait py c)) = returncode c \<and> finalized (snd (wait py c))"
  using finalize_of_finalized [OF assms] assms finalize_finalized [of c]
  by (simp add: wait_def Let_def log_fields log_finalized split: sum.splits)

lemma pytest_wait_of_finalized:
  assumes "finalized c"
  shows "out_data (snd (pytest_wait c)) = out_data c \<and> err_data (snd (pytest_wait c)) = err_data c
       \<and> returncode (snd (pytest_wait c)) = returncode c \<and> finalized (snd (pytest_wait c))"
  using finalize_of_finalized [OF assms] assms finalize_finalized [of c]
  by (simp add: pytest_wait_def Let_def)

lemma send_keeps:
  "out_data (snd (send py d c)) = out_data c \<and> err_data (snd (send py d c)) = err_data c
   \<and> returncode (snd (send py d c)) = returncode c
   \<and> finalized (snd (send py d c)) = finalized c"
  by (simp add: send_def finalized_def split: sum.splits pydata.splits)

lemma setter_keeps:
  "err_data (snd (set_stdout_text py v c)) = err_data c
   \<and> returncode (snd (set_stdout_text py v c)) = returncode c
   \<and> finalized (snd (set_stdout_text py v c)) = finalized c"
  by (simp add: set_stdout_text_def finalized_def Let_def split: sum.splits)

lemma thread_steps_of_finalized:
  assumes "finalized c"
  shows "out_thread_step c = c \<and> err_thread_step c = c"
  using assms by (simp add: finalized_def out_thread_step_def err_thread_step_def)

lemma perform_of_finalized:
  assumes "finalized c"
  shows "err_data (perform pkg py a c) = err_data c
       \<and> returncode (perform pkg py a c) = returncode c
       \<and> finalized (perform pkg py a c)
       \<and> (pkg = Pytest \<or> (\<forall>v. a \<noteq> SetStdout v)
            \<longrightarrow> out_data (perform pkg py a c) = out_data c)"
  using assms wait_of_finalized [OF assms, of py] pytest_wait_of_finalized [OF assms]
    send_keeps [of py _ c] setter_keeps [of py _ c] thread_steps_of_finalized [OF assms]
  by (cases a; cases pkg) (simp_all add: perform_def log_fields log_finalized)

lemma fold_of_finalized:
  assumes "finalized c"
  shows "err_data (fold (perform pkg py) as c) = err_data c
       \<and> returncode (fold (perform pkg py) as c) = returncode c
       \<and> finalized (fold (perform pkg py) as c)
       \<and> (pkg = Pytest \<or> (\<forall>v. SetStdout v \<notin> set as)
            \<longrightarrow> out_data (fold (perform pkg py) as c) = out_data c)"
  using assms
proof (induction as arbitrary: c)
  case Nil
  then show ?case by simp
next
  case (Cons a as)
  note step = perform_of_finalized [OF Cons.prems, of pkg py a]
  from step have fin: "finalized (perform pkg py a c)" by simp
  from Cons.IH [OF fin] step show ?case by auto
qed

lemma wait_finalizes:
  assumes "returncode c0 = None"
  shows "finalized (perform pkg py Wait c0)"
  using assms finalize_finalized [of c0]
  by (cases pkg)
     (simp_all add: perform_def wait_def pytest_wait_def not_returncode_def Let_def log_finalized
        split: sum.splits)

subsection \<open>\<^verbatim>\<open>wait\<close> on a running command\<close>

lemma stderr_text_trace: "stderr_text py (c\<lparr>trace := t\<rparr>) = stderr_text py c"
  by (simp add: stderr_text_def split: option.split)

lemma wait_running_state:
  assumes "returncode c = None"
  shows "snd (wait py c) =
           (finalize c)\<lparr>trace := trace (finalize c) @
              (if logger c
               then Log (CMD_RETURNCODE (Some (exit_status (cmd c)))) #
                    (if exit_status (cmd c) = 0 then []
                     else case stderr_text py (finalize c) of
                            Inl e \<Rightarrow> [] | Inr t \<Rightarrow> [Log (CMD_STDERR t)])
               else [])\<rparr>"
  using assms
  by (simp add: wait_def not_returncode_def Let_def log_def finalize_returncode finalize_logger
      stderr_text_trace split: sum.splits)

lemma wait_running_result:
  assumes "returncode c = None"
  shows "fst (wait py c) =
           (case stderr_text py (finalize c) of
              Inl e \<Rightarrow> if exit_status (cmd c) = 0 then Inr (Some 0) else Inl e
            | Inr t \<Rightarrow> Inr (Some (exit_status (cmd c))))"
  using assms
  by (simp add: wait_def not_returncode_def Let_def log_fields stderr_text_log
      finalize_returncode split: sum.splits)

section \<open>Facts about the tokenizer\<close>

lemmas char_classes = whitespace_def quotes_def escape_def escapedquotes_def

lemma plain_char_simps:
  "plain_char ch \<Longrightarrow> ch \<noteq> CHR '' '' \<and> ch \<noteq> CHR 0x09 \<and> ch \<noteq> CHR 0x0D \<and> ch \<noteq> CHR 0x0A
     \<and> ch \<noteq> CHR 0x27 \<and> ch \<noteq> CHR 0x22 \<and> ch \<noteq> CHR 0x5C"
  by (auto simp: plain_char_def char_classes)

lemma word_run:
  assumes "list_all plain_char w"
  shows "read_tokens CHR ''a'' e q tok (w @ rest) = read_tokens CHR ''a'' e q (tok @ w) rest"
  using assms
proof (induction w arbitrary: tok)
  case Nil
  then show ?case by simp
next
  case (Cons ch w)
  then have "plain_char ch" and w: "list_all plain_char w" by simp_all
  from plain_char_simps [OF this(1)] Cons.IH [OF w, of "tok @ [ch]"]
  show ?case by (simp add: char_classes)
qed

lemma plain_start:
  assumes "plain w"
  shows "read_tokens CHR '' '' e False [] (w @ rest) = read_tokens CHR ''a'' e False w rest"
proof (cases w)
  case Nil
  with assms show ?thesis by (simp add: plain_def)
next
  case (Cons ch w')
  with assms have "plain_char ch" and w': "list_all plain_char w'" by (simp_all add: plain_def)
  from plain_char_simps [OF this(1)] word_run [OF w', of e False "[ch]" rest] Cons
  show ?thesis by (simp add: char_classes)
qed

lemma plain_then_blank:
  assumes "plain w"
  shows "read_tokens CHR '' '' e False [] (w @ CHR '' '' # rest)
           = cons_token w (read_tokens CHR '' '' CHR '' '' False [] rest)"
  using assms plain_start [OF assms, of e "CHR '' '' # rest"]
  by (simp add: char_classes plain_def)

lemma plain_at_end:
  assumes "plain w"
  shows "read_tokens CHR '' '' e False [] w = Inr [w]"
  using assms plain_start [OF assms, of e "[]"]
  by (simp add: char_classes plain_def emit_def)

lemma shlex_split_plain: "plain w \<Longrightarrow> shlex_split w = Inr [w]"
  by (simp add: shlex_split_def plain_at_end)

lemma shlex_split_template:
  assumes "plain user" and "plain identity" and "plain hname"
  shows "shlex_split (ssh_template user identity hname) =
           Inr [''ssh'', ''-T'', ''-l'', user, ''-i'', identity,
                ''-o'', ''UserKnownHostsFile=/dev/null'',
                ''-o'', ''ControlMaster=auto'',
                ''-o'', ''StrictHostKeyChecking=no'',
                ''-o'', ''ControlPersist=10m'',
                ''-o'', ''ControlPath=/tmp/mytest-%r@%h:%p'', hname]"
  using assms
  by (simp add: shlex_split_def ssh_template_def char_classes cons_token_def
      plain_then_blank plain_at_end)


lemma replace_backslash_plain:
  assumes "list_all plain_char w"
  shows "replace_backslash w = w"
  using assms
  by (induction w) (auto simp: replace_backslash_def dest: plain_char_simps)

lemma escape_twice_plain: "plain w \<Longrightarrow> escape_twice w = w"
  by (simp add: escape_twice_def plain_def replace_backslash_plain)

lemma requote_plain: "plain w \<Longrightarrow> requote w = Inr w"
  by (simp add: requote_def shlex_split_plain)

lemma map_raising_plain_prefix:
  assumes "list_all plain xs"
  shows "map_raising requote (xs @ ys) =
           (case map_raising requote ys of Inl e \<Rightarrow> Inl e | Inr qs \<Rightarrow> Inr (xs @ qs))"
  using assms
  by (induction xs) (auto simp: requote_plain split: sum.splits)

lemma map_escape_twice_plain: "list_all plain xs \<Longrightarrow> map escape_twice xs = xs"
  by (induction xs) (auto simp: escape_twice_plain)

lemma map_raising_Inr:
  "map_raising f xs = Inr ys \<longleftrightarrow>
     length ys = length xs \<and> (\<forall>i<length xs. f (xs ! i) = Inr (ys ! i))"
proof (induction xs arbitrary: ys)
  case Nil
  then show ?case by auto
next
  case (Cons x xs)
  show ?case
  proof (cases ys)
    case Nil
    then show ?thesis by (auto split: sum.splits)
  next
    case (Cons y ys')
    then show ?thesis
      using Cons.IH [of ys']
      by (auto simp: nth_Cons split: sum.splits nat.splits)
  qed
qed

lemma map_raising_Inl:
  assumes "x \<in> set xs" and "f x = Inl e"
  shows "\<exists>e'. map_raising f xs = Inl e' \<and> (\<exists>y\<in>set xs. f y = Inl e')"
  using assms
  by (induction xs) (auto split: sum.splits)

lemma read_tokens_raises_ValueError:
  assumes "read_tokens state escapedstate quoted token s = Inl err"
  shows "err = ValueError ''No closing quotation'' \<or> err = ValueError ''No escaped character''"
  using assms
proof (induction s arbitrary: state escapedstate quoted token)
  case Nil
  then show ?case by (simp split: if_splits)
next
  case (Cons nextchar rest)
  then show ?case
    by (simp add: cons_token_def split: if_splits sum.splits)
qed

lemma blank_step:
  "read_tokens CHR '' '' e q tok (ch # rest) =
     (if ch \<in> set whitespace then
        (if tok \<noteq> [] \<or> q then cons_token tok (read_tokens CHR '' '' CHR '' '' False [] rest)
         else read_tokens CHR '' '' e q tok rest)
      else if ch \<in> set escape then read_tokens ch CHR ''a'' q tok rest
      else if ch \<in> set quotes then read_tokens ch e q tok rest
      else read_tokens CHR ''a'' e q [ch] rest)"
  by simp

lemma word_step:
  "read_tokens CHR ''a'' e q tok (ch # rest) =
     (if ch \<in> set whitespace then
        (if tok \<noteq> [] \<or> q then cons_token tok (read_tokens CHR '' '' CHR '' '' False [] rest)
         else read_tokens CHR '' '' e q tok rest)
      else if ch \<in> set quotes then read_tokens ch e q tok rest
      else if ch \<in> set escape then read_tokens ch CHR ''a'' q tok rest
      else read_tokens CHR ''a'' e q (tok @ [ch]) rest)"
  by (simp add: char_classes)

lemma quote_step:
  assumes "qc \<in> set quotes"
  shows "read_tokens qc e q tok (ch # rest) =
     (if ch = qc then read_tokens CHR ''a'' e True tok rest
      else if ch \<in> set escape \<and> qc \<in> set escapedquotes then read_tokens ch qc True tok rest
      else read_tokens qc e True (tok @ [ch]) rest)"
  using assms by (auto simp: char_classes)

lemma quote_eof:
  assumes "qc \<in> set quotes"
  shows "read_tokens qc e q tok [] = Inl (ValueError ''No closing quotation'')"
  using assms by simp

lemma cons_token_Inl: "cons_token t (Inl e) = Inl e"
  by (simp add: cons_token_def)

lemma unbalanced_quote_general:
  assumes "qc \<in> set quotes"
    and "list_all (\<lambda>ch. ch \<notin> set escape \<and> (ch \<in> set quotes \<longrightarrow> ch = qc)) s"
  shows "(odd (count_list s qc) \<longrightarrow>
            read_tokens CHR '' '' e q tok s = Inl (ValueError ''No closing quotation'')
          \<and> read_tokens CHR ''a'' e q tok s = Inl (ValueError ''No closing quotation''))
       \<and> (even (count_list s qc) \<longrightarrow>
            read_tokens qc e q tok s = Inl (ValueError ''No closing quotation''))"
  using assms(2)
proof (induction s arbitrary: e q tok)
  case Nil
  show ?case by (simp add: quote_eof [OF assms(1)] del: read_tokens.simps)
next
  case (Cons ch rest)
  then have rest: "list_all (\<lambda>ch. ch \<notin> set escape \<and> (ch \<in> set quotes \<longrightarrow> ch = qc)) rest"
    and ne: "ch \<notin> set escape" and nq: "ch \<in> set quotes \<longrightarrow> ch = qc"
    by simp_all
  note IH = Cons.IH [OF rest]
  from assms(1) have qcw: "qc \<notin> set whitespace"
    by (auto simp: char_classes)
  show ?case
  proof (cases "ch = qc")
    case True
    have "even (count_list rest qc) \<Longrightarrow>
        read_tokens CHR '' '' e q tok (ch # rest) = Inl (ValueError ''No closing quotation'')
        \<and> read_tokens CHR ''a'' e q tok (ch # rest) = Inl (ValueError ''No closing quotation'')"
      using IH [of e q tok] True qcw ne assms(1)
      by (simp only: blank_step word_step) simp
    moreover have "odd (count_list rest qc) \<Longrightarrow>
        read_tokens qc e q tok (ch # rest) = Inl (ValueError ''No closing quotation'')"
      using IH [of e True tok] True
      by (simp only: quote_step [OF assms(1)]) simp
    ultimately show ?thesis using True by simp
  next
    case False
    with nq have nquote: "ch \<notin> set quotes" by blast
    have "read_tokens CHR '' '' e q tok (ch # rest) = Inl (ValueError ''No closing quotation'')
        \<and> read_tokens CHR ''a'' e q tok (ch # rest) = Inl (ValueError ''No closing quotation'')"
      if odd: "odd (count_list rest qc)"
    proof -
      from IH odd have blank: "\<And>e q tok. read_tokens CHR '' '' e q tok rest
          = Inl (ValueError ''No closing quotation'')"
        and word: "\<And>e q tok. read_tokens CHR ''a'' e q tok rest
          = Inl (ValueError ''No closing quotation'')"
        by blast+
      from nquote ne show ?thesis
        by (simp only: blank_step word_step) (simp add: blank word cons_token_Inl)
    qed
    moreover have "even (count_list rest qc) \<Longrightarrow>
        read_tokens qc e q tok (ch # rest) = Inl (ValueError ''No closing quotation'')"
      using IH [of e True "tok @ [ch]"] False ne
      by (simp only: quote_step [OF assms(1)]) simp
    ultimately show ?thesis using False by simp
  qed
qed

lemma shlex_split_unbalanced:
  assumes "qc \<in> set quotes"
    and "list_all (\<lambda>ch. ch \<notin> set escape \<and> (ch \<in> set quotes \<longrightarrow> ch = qc)) s"
    and "odd (count_list s qc)"
  shows "shlex_split s = Inl (ValueError ''No closing quotation'')"
  using unbalanced_quote_general [OF assms(1,2), of "CHR '' ''" False "[]"] assms(3)
  by (simp add: shlex_split_def)

lemma read_tokens_blank_only:
  assumes "list_all (\<lambda>ch. ch \<in> set whitespace) s"
  shows "read_tokens CHR '' '' escapedstate False [] s = Inr []"
  using assms
  by (induction s) (auto simp: emit_def char_classes)

lemma requote_blank_only:
  assumes "list_all (\<lambda>ch. ch \<in> set whitespace) s"
  shows "shlex_split s = Inr [] \<and> requote s = Inr ([CHR 0x22] @ s @ [CHR 0x22])"
  using read_tokens_blank_only [OF assms]
  by (simp add: shlex_split_def requote_def)

lemma inside_double_quotes:
  assumes "CHR 0x22 \<notin> set x" and "CHR 0x5C \<notin> set x"
  shows "read_tokens CHR 0x22 e q tok (x @ [CHR 0x22]) = Inr [tok @ x]"
  using assms
  by (induction x arbitrary: e q tok) (auto simp: char_classes emit_def)

lemma shlex_split_double_quoted:
  assumes "CHR 0x22 \<notin> set x" and "CHR 0x5C \<notin> set x"
  shows "shlex_split ([CHR 0x22] @ x @ [CHR 0x22]) = Inr [x]"
  using inside_double_quotes [OF assms, of "CHR '' ''" False "[]"]
  by (simp add: shlex_split_def char_classes)

lemma escape_twice_quadruples:
  "escape_twice x = concat (map (\<lambda>ch. if ch = CHR 0x5C then replicate 4 (CHR 0x5C) else [ch]) x)"
  by (induction x) (auto simp: escape_twice_def replace_backslash_def numeral_eq_Suc)

section \<open>Facts about the construction of the vector\<close>

lemma SSHCommand_args:
  assumes "SSHCommand spawn hname user identity command enc lg = Inr c"
  shows "ssh_cmd_of hname (case user of None \<Rightarrow> ''root'' | Some u \<Rightarrow> u) identity command
           = Inr (args (cmd c))"
  using assms
  by (auto simp: SSHCommand_def and_then_def log_def Popen_def Let_def split: sum.splits)

lemma SSHCommand_Inl:
  assumes "ssh_cmd_of hname (case user of None \<Rightarrow> ''root'' | Some u \<Rightarrow> u) identity command = Inl e"
  shows "SSHCommand spawn hname user identity command enc lg = Inl e"
  using assms by (simp add: SSHCommand_def and_then_def Let_def)

lemma ssh_cmd_of_Inr:
  assumes "ssh_cmd_of hname user identity command = Inr v"
  shows "\<exists>toks qs. assembled hname user identity command = Inr toks
           \<and> map_raising requote toks = Inr qs \<and> v = map escape_twice qs"
  using assms by (auto simp: ssh_cmd_of_def and_then_def split: sum.splits)

lemma transport_plain:
  assumes "plain user" and "plain identity" and "plain hname"
  shows "list_all plain (transport user identity hname)"
  using assms by (simp add: transport_def) (simp add: plain_def plain_char_def char_classes)

lemma assembled_plain:
  assumes "plain user" and "case identity of None \<Rightarrow> True | Some i \<Rightarrow> plain i" and "plain hname"
    and "assembled hname user identity command = Inr toks"
  shows "\<exists>ws. toks = transport user (case identity of None \<Rightarrow> ''~/.ssh/id_rsa'' | Some i \<Rightarrow> i) hname @ ws"
proof -
  have pi: "plain (case identity of None \<Rightarrow> ''~/.ssh/id_rsa'' | Some i \<Rightarrow> i)"
    using assms(2) by (cases identity) (simp_all add: plain_def plain_char_def char_classes)
  from shlex_split_template [OF assms(1) pi assms(3)] assms(4) show ?thesis
    by (auto simp: assembled_def and_then_def Let_def transport_def split: sum.splits command.splits)
qed

lemma ssh_cmd_of_plain:
  assumes "plain user" and "case identity of None \<Rightarrow> True | Some i \<Rightarrow> plain i" and "plain hname"
    and "ssh_cmd_of hname user identity command = Inr v"
  shows "take 17 v = transport user (case identity of None \<Rightarrow> ''~/.ssh/id_rsa'' | Some i \<Rightarrow> i) hname"
proof -
  let ?t = "transport user (case identity of None \<Rightarrow> ''~/.ssh/id_rsa'' | Some i \<Rightarrow> i) hname"
  have pi: "plain (case identity of None \<Rightarrow> ''~/.ssh/id_rsa'' | Some i \<Rightarrow> i)"
    using assms(2) by (cases identity) (simp_all add: plain_def plain_char_def char_classes)
  note tp = transport_plain [OF assms(1) pi assms(3)]
  from ssh_cmd_of_Inr [OF assms(4)] obtain toks qs where
    a: "assembled hname user identity command = Inr toks"
    and q: "map_raising requote toks = Inr qs" and v: "v = map escape_twice qs"
    by blast
  from assembled_plain [OF assms(1,2,3) a] obtain ws where toks: "toks = ?t @ ws" by blast
  from q toks map_raising_plain_prefix [OF tp, of ws] obtain qs' where qs: "qs = ?t @ qs'"
    by (auto split: sum.splits)
  have len: "length ?t = 17" by (simp add: transport_def)
  from v qs map_escape_twice_plain [OF tp] len show ?thesis by simp
qed

lemma escape_twice_no_backslash:
  assumes "CHR 0x5C \<notin> set x"
  shows "escape_twice x = x"
  using assms by (induction x) (auto simp: escape_twice_def replace_backslash_def)

section \<open>Facts about the host\<close>

lemma logged_init: "logged [Log m] = [m]"
  by simp

text \<open>A foreground command without input: what \<^verbatim>\<open>_exec_command\<close> returns and leaves
  behind, once the command object is built.\<close>

lemma exec_command_foreground:
  assumes "SSHCommand (remote (spawned st)) (hostname h) (Some (ssh_username h)) (ssh_key_filename h)
             command enc True = Inr c"
  shows "exec_command remote py h command NoData False enc st =
           (if exit_status (cmd c) = 0
            then (Inr (finalize c),
                  st\<lparr>spawned := spawned st @ [args (cmd c)],
                     hlog := hlog st @ [CMD_argv (args (cmd c)), RETURNCODE (Some (exit_status (cmd c)))]\<rparr>)
            else case stderr_text py (finalize c) of
                   Inl e \<Rightarrow>
                     (Inl e,
                      st\<lparr>spawned := spawned st @ [args (cmd c)],
                         hlog := hlog st @ [CMD_argv (args (cmd c)),
                                            RETURNCODE (Some (exit_status (cmd c)))]\<rparr>)
                 | Inr t \<Rightarrow>
                     (Inr (finalize c),
                      st\<lparr>spawned := spawned st @ [args (cmd c)],
                         hlog := hlog st @ [CMD_argv (args (cmd c)),
                                            RETURNCODE (Some (exit_status (cmd c))), STDERR t]\<rparr>))"
proof -
  note init = SSHCommand_running [OF assms]
  from init have w: "pytest_wait c = (Some (exit_status (cmd c)), finalize c)"
    by (simp add: pytest_wait_def not_returncode_def Let_def finalize_returncode)
  from init have l: "logged (trace c) = [CMD_argv (args (cmd c))]"
    by simp
  show ?thesis
    by (simp add: exec_command_def assms falsy_def Let_def w l finalize_returncode
        not_returncode_def split: sum.splits)
qed


text \<open>Whether the vector can be built does not depend on the plain words a command starts
  with: the read command is built whenever the probe is.\<close>

lemma map_raising_append:
  "map_raising f (xs @ ys) =
     (case map_raising f xs of
        Inl e \<Rightarrow> Inl e
      | Inr a \<Rightarrow> (case map_raising f ys of Inl e \<Rightarrow> Inl e | Inr b \<Rightarrow> Inr (a @ b)))"
  by (induction xs) (auto split: sum.splits)

lemma shlex_split_plain_first:
  assumes "plain w"
  shows "shlex_split (w @ CHR '' '' # rest) = cons_token w (shlex_split rest)"
  using plain_then_blank [OF assms] by (simp add: shlex_split_def)

lemma ssh_cmd_of_CmdStr:
  "ssh_cmd_of hname user identity (CmdStr s) =
     and_then (shlex_split s) (\<lambda>ws. ssh_cmd_of hname user identity (CmdList ws))"
  by (simp add: ssh_cmd_of_def assembled_def and_then_def split: sum.splits)

lemma ssh_cmd_of_other_plain_words:
  assumes "ssh_cmd_of hname user identity (CmdList (xs @ ws)) = Inr v" and "list_all plain ys"
  shows "\<exists>v'. ssh_cmd_of hname user identity (CmdList (ys @ ws)) = Inr v'"
proof -
  from assms(1) obtain p qs where
    p: "shlex_split (ssh_template user (case identity of None \<Rightarrow> ''~/.ssh/id_rsa'' | Some i \<Rightarrow> i) hname) = Inr p"
    and q: "map_raising requote (p @ xs @ ws) = Inr qs"
    by (auto simp: ssh_cmd_of_def assembled_def and_then_def Let_def split: sum.splits)
  from q obtain p' w' where p': "map_raising requote p = Inr p'" and w': "map_raising requote ws = Inr w'"
    by (auto simp: map_raising_append split: sum.splits)
  from map_raising_plain_prefix [OF assms(2), of ws] w'
  have "map_raising requote (ys @ ws) = Inr (ys @ w')" by simp
  with p' have "map_raising requote (p @ ys @ ws) = Inr (p' @ ys @ w')"
    by (simp add: map_raising_append)
  with p show ?thesis
    by (simp add: ssh_cmd_of_def assembled_def and_then_def Let_def)
qed

lemma SSHCommand_builds:
  assumes "ssh_cmd_of hname (case user of None \<Rightarrow> ''root'' | Some u \<Rightarrow> u) identity command = Inr v"
  shows "\<exists>c. SSHCommand spawn hname user identity command enc lg = Inr c"
  using assms by (simp add: SSHCommand_def and_then_def Let_def)

lemma read_command_builds:
  assumes "SSHCommand spawn hname user identity (CmdStr (''test -f '' @ filename)) enc lg = Inr p"
  shows "\<exists>r. SSHCommand spawn' hname user identity (CmdStr (''cat '' @ filename)) enc' lg' = Inr r"
proof -
  let ?u = "case user of None \<Rightarrow> ''root'' | Some u \<Rightarrow> u"
  have pt: "plain ''test''" and pf: "plain ''-f''" and pc: "plain ''cat''"
    by (simp_all add: plain_def plain_char_def char_classes)
  have t: "shlex_split (''test -f '' @ filename) = cons_token ''test'' (cons_token ''-f'' (shlex_split filename))"
    using shlex_split_plain_first [OF pt, of "''-f '' @ filename"]
      shlex_split_plain_first [OF pf, of filename]
    by simp
  have c: "shlex_split (''cat '' @ filename) = cons_token ''cat'' (shlex_split filename)"
    using shlex_split_plain_first [OF pc, of filename] by simp
  from SSHCommand_args [OF assms] t obtain wf where wf: "shlex_split filename = Inr wf"
    and b: "ssh_cmd_of hname ?u identity (CmdList ([''test'', ''-f''] @ wf)) = Inr (args (cmd p))"
    by (auto simp: ssh_cmd_of_CmdStr and_then_def cons_token_def split: sum.splits)
  from ssh_cmd_of_other_plain_words [OF b, of "[''cat'']"] pc obtain v' where
    "ssh_cmd_of hname ?u identity (CmdList ([''cat''] @ wf)) = Inr v'"
    by auto
  with c wf have "ssh_cmd_of hname ?u identity (CmdStr (''cat '' @ filename)) = Inr v'"
    by (simp add: ssh_cmd_of_CmdStr and_then_def cons_token_def)
  then show ?thesis by (rule SSHCommand_builds)
qed

section \<open>The claims\<close>

subsection \<open>C1: a second \<^verbatim>\<open>wait()\<close>\<close>

text \<open>
  C1 says that a second \<^verbatim>\<open>wait()\<close> returns the exit code of the first and does not run the
  close and join sequence again, whether that exit code is zero or not. The guard of
  \<^verbatim>\<open>wait\<close> is \<^verbatim>\<open>if not self.returncode\<close>, which also holds for the stored exit code
  \<^verbatim>\<open>0\<close>. For a command whose process exits with status 0, built by \<^verbatim>\<open>__init__\<close>, both
  calls return 0, and the second call appends the whole sequence to the trace once more; this
  holds for the \<^verbatim>\<open>wait\<close> of either package.
\<close>

theorem second_wait_after_exit_zero_repeats_sequence:
  "(case SSHCommand (\<lambda>ssh_cmd. \<lparr>run_stdout = [[0x68, 0x69, 0x0A]], run_stderr = [], run_exit = 0\<rparr>)
          ''host'' None None (CmdList [''echo'', ''hi'']) (Some ''utf-8'') False of
      Inl e \<Rightarrow> False
    | Inr c \<Rightarrow>
        (case wait std_codecs c of
           (r1, c1) \<Rightarrow>
             (case wait std_codecs c1 of
                (r2, c2) \<Rightarrow>
                  r1 = Inr (Some 0) \<and> r2 = Inr (Some 0)
                  \<and> trace c1 = close_sequence
                  \<and> trace c2 = close_sequence @ close_sequence))
        \<and> (case pytest_wait c of
             (r1, c1) \<Rightarrow>
               (case pytest_wait c1 of
                  (r2, c2) \<Rightarrow>
                    r1 = Some 0 \<and> r2 = Some 0
                    \<and> trace c1 = close_sequence
                    \<and> trace c2 = close_sequence @ close_sequence)))"
  by code_simp

subsection \<open>C2: the order of the steps of \<^verbatim>\<open>wait()\<close>\<close>

text \<open>
  C2, as amended. For every running command (no return code yet), \<^verbatim>\<open>wait()\<close> closes stdin,
  joins the stdout drainer, closes stdout, joins the stderr drainer, closes stderr, waits for
  the process and stores its exit code, in exactly this order, so both drainers have returned
  when the exit code is stored. The \<^verbatim>\<open>wait\<close> of \<^verbatim>\<open>pytest_multihost\<close> then returns the
  exit code. The \<^verbatim>\<open>wait\<close> of \<^verbatim>\<open>mytest_multihost\<close> then logs the exit code and, when it
  is not zero, reads \<^verbatim>\<open>stderr_text\<close> for a second log line: it returns the exit code when
  the exit code is zero or the stderr bytes decode, and otherwise the decoding error leaves
  \<^verbatim>\<open>wait\<close>, the exit code being stored already. The processes of the model end and their
  outputs reach end of file, so each join and the wait for the process return.
\<close>

theorem wait_order:
  assumes "returncode c = None"
  shows "pytest_wait c = (Some (exit_status (cmd c)), finalize c)
       \<and> trace (finalize c) =
           trace c @ [StdinClose, OutThreadJoin, StdoutClose, ErrThreadJoin, StderrClose, ProcessWait]
       \<and> returncode (finalize c) = Some (exit_status (cmd c))
       \<and> \<not> out_alive (finalize c) \<and> \<not> err_alive (finalize c)
       \<and> snd (wait py c) =
           (finalize c)\<lparr>trace := trace (finalize c) @
              (if logger c
               then Log (CMD_RETURNCODE (Some (exit_status (cmd c)))) #
                    (if exit_status (cmd c) = 0 then []
                     else case stderr_text py (finalize c) of
                            Inl e \<Rightarrow> [] | Inr t \<Rightarrow> [Log (CMD_STDERR t)])
               else [])\<rparr>
       \<and> fst (wait py c) =
           (case stderr_text py (finalize c) of
              Inl e \<Rightarrow> if exit_status (cmd c) = 0 then Inr (Some 0) else Inl e
            | Inr t \<Rightarrow> Inr (Some (exit_status (cmd c))))"
proof -
  have "pytest_wait c = (Some (exit_status (cmd c)), finalize c)"
    using assms by (simp add: pytest_wait_def not_returncode_def Let_def finalize_returncode)
  moreover have "trace (finalize c) =
      trace c @ [StdinClose, OutThreadJoin, StdoutClose, ErrThreadJoin, StderrClose, ProcessWait]"
    by (simp add: finalize_trace close_sequence_def)
  ultimately show ?thesis
    using wait_running_state [OF assms, of py] wait_running_result [OF assms, of py]
      finalize_returncode [of c] finalize_threads [of c]
    by simp
qed

theorem wait_order_witness:
  "(case SSHCommand (\<lambda>ssh_cmd. \<lparr>run_stdout = [[0x68, 0x69], [0x0A]], run_stderr = [[0x6E, 0x6F]], run_exit = 1\<rparr>)
          ''host'' None None (CmdList [''echo'', ''hi'']) (Some ''utf-8'') True of
      Inl e \<Rightarrow> False
    | Inr c \<Rightarrow>
        returncode c = None
        \<and> pytest_wait c = (Some 1, finalize c)
        \<and> trace (finalize c) =
            [Log (CMD_argv (args (cmd c))),
             StdinClose, OutThreadJoin, StdoutClose, ErrThreadJoin, StderrClose, ProcessWait]
        \<and> out_data (finalize c) = [[0x68, 0x69], [0x0A]]
        \<and> fst (wait std_codecs c) = Inr (Some 1))"
proof -
  have "(case SSHCommand (\<lambda>ssh_cmd. \<lparr>run_stdout = [[0x68, 0x69], [0x0A]], run_stderr = [[0x6E, 0x6F]], run_exit = 1\<rparr>)
          ''host'' None None (CmdList [''echo'', ''hi'']) (Some ''utf-8'') True of
      Inl e \<Rightarrow> False | Inr c \<Rightarrow> True)"
    by code_simp
  then obtain c where c: "SSHCommand (\<lambda>ssh_cmd. \<lparr>run_stdout = [[0x68, 0x69], [0x0A]], run_stderr = [[0x6E, 0x6F]], run_exit = 1\<rparr>)
          ''host'' None None (CmdList [''echo'', ''hi'']) (Some ''utf-8'') True = Inr c"
    by (auto split: sum.splits)
  note init = SSHCommand_running [OF c]
  from init have running: "returncode c = None" by simp
  have err: "stderr_text std_codecs (finalize c) = Inr [0x6E, 0x6F]"
    using init
    by (simp add: stderr_text_def finalize_returncode finalize_encoding finalize_err_data
        configured_def encoding_or_default_def std_codecs_def std_decode_def)
  have out: "out_data (finalize c) = [[0x68, 0x69], [0x0A]]"
    using init by (simp add: finalize_out_data)
  from wait_order [OF running, of std_codecs] init err out c
  show ?thesis by simp
qed

text \<open>
  C2 as stated fails for the \<^verbatim>\<open>wait\<close> of \<^verbatim>\<open>mytest_multihost\<close>: for a running command
  whose process exits with status 1 after writing the byte \<^verbatim>\<open>0xFF\<close> to stderr, \<^verbatim>\<open>wait()\<close>
  stores the exit code and raises \<^verbatim>\<open>UnicodeDecodeError\<close> instead of returning it.
\<close>

theorem wait_raises_on_undecodable_stderr:
  "(case SSHCommand (\<lambda>ssh_cmd. \<lparr>run_stdout = [], run_stderr = [[0xFF]], run_exit = 1\<rparr>)
          ''host'' None None (CmdList [''false'']) (Some ''utf-8'') False of
      Inl e \<Rightarrow> False
    | Inr c \<Rightarrow>
        returncode c = None
        \<and> fst (wait std_codecs c) = Inl UnicodeDecodeError
        \<and> returncode (snd (wait std_codecs c)) = Some 1)"
  by code_simp

subsection \<open>C3: decoding in the two accessors\<close>

text \<open>
  C3. For every finalized command with a configured encoding \<open>e\<close>: when decoding the
  concatenated stdout chunks fails with \<^verbatim>\<open>UnicodeDecodeError\<close>, \<^verbatim>\<open>stdout_text\<close> returns the
  concatenated bytes and does not raise; when it succeeds, \<^verbatim>\<open>stdout_text\<close> returns the text;
  \<^verbatim>\<open>stderr_text\<close> is the result of decoding the concatenated stderr chunks, so a failure to
  decode them is raised to the caller.
\<close>

theorem stdout_falls_back_stderr_raises:
  assumes "returncode c = Some rc" and "encoding c = Some e" and "e \<noteq> []"
  shows "(decode py e (concat (out_data c)) = Inl UnicodeDecodeError
            \<longrightarrow> stdout_text py c = Inr (Bytes (concat (out_data c))))
       \<and> (\<forall>t. decode py e (concat (out_data c)) = Inr t \<longrightarrow> stdout_text py c = Inr (Str t))
       \<and> stderr_text py c = decode py e (concat (err_data c))"
  using assms
  by (simp add: stdout_text_def stderr_text_def configured_def encoding_or_default_def Let_def)

theorem stdout_falls_back_stderr_raises_witness:
  "(case SSHCommand (\<lambda>ssh_cmd. \<lparr>run_stdout = [[0x68], [0xFF]], run_stderr = [[0xFF]], run_exit = 0\<rparr>)
          ''host'' None None (CmdList [''cat'', ''blob'']) (Some ''utf-8'') False of
      Inl e \<Rightarrow> False
    | Inr c \<Rightarrow>
        returncode (finalize c) = Some 0
        \<and> encoding (finalize c) = Some ''utf-8''
        \<and> stdout_text std_codecs (finalize c) = Inr (Bytes [0x68, 0xFF])
        \<and> stderr_text std_codecs (finalize c) = Inl UnicodeDecodeError)"
proof -
  have "(case SSHCommand (\<lambda>ssh_cmd. \<lparr>run_stdout = [[0x68], [0xFF]], run_stderr = [[0xFF]], run_exit = 0\<rparr>)
          ''host'' None None (CmdList [''cat'', ''blob'']) (Some ''utf-8'') False of
      Inl e \<Rightarrow> False | Inr c \<Rightarrow> True)"
    by code_simp
  then obtain c where c: "SSHCommand (\<lambda>ssh_cmd. \<lparr>run_stdout = [[0x68], [0xFF]], run_stderr = [[0xFF]], run_exit = 0\<rparr>)
          ''host'' None None (CmdList [''cat'', ''blob'']) (Some ''utf-8'') False = Inr c"
    by (auto split: sum.splits)
  note init = SSHCommand_running [OF c]
  have rc: "returncode (finalize c) = Some 0"
    using init by (simp add: finalize_returncode)
  have enc: "encoding (finalize c) = Some ''utf-8''"
    using init by (simp add: finalize_encoding)
  have out: "concat (out_data (finalize c)) = [0x68, 0xFF]"
    using init by (simp add: finalize_out_data)
  have err: "concat (err_data (finalize c)) = [0xFF]"
    using init by (simp add: finalize_err_data)
  have dec_out: "decode std_codecs ''utf-8'' [0x68, 0xFF] = Inl UnicodeDecodeError"
    by (simp add: std_codecs_def std_decode_def)
  have dec_err: "decode std_codecs ''utf-8'' [0xFF] = Inl UnicodeDecodeError"
    by (simp add: std_codecs_def std_decode_def)
  from stdout_falls_back_stderr_raises [OF rc enc, of std_codecs] rc enc out err dec_out dec_err c
  show ?thesis by simp
qed

subsection \<open>C4: re-quoting and escaping of the words\<close>

text \<open>
  C4, as amended. In the launcher's construction of the vector, every word of the assembled
  vector that \<^verbatim>\<open>shlex.split\<close> reads as exactly one word passes the quoting step unchanged,
  and every other word is put between two double quotes; then every backslash of every word is
  replaced by exactly four backslashes (the replacement of one backslash by two is applied
  twice). A word put between double quotes that holds neither a double quote nor a backslash is
  read back by \<^verbatim>\<open>shlex.split\<close> as one word, the original.
\<close>

theorem requote_then_escape_twice:
  assumes "SSHCommand spawn hname user identity command enc lg = Inr c"
  shows "\<exists>toks.
           assembled hname (case user of None \<Rightarrow> ''root'' | Some u \<Rightarrow> u) identity command = Inr toks
         \<and> length (args (cmd c)) = length toks
         \<and> (\<forall>i<length toks. \<exists>ws.
               shlex_split (toks ! i) = Inr ws
             \<and> args (cmd c) ! i =
                 concat (map (\<lambda>ch. if ch = CHR 0x5C then replicate 4 (CHR 0x5C) else [ch])
                   (if length ws = 1 then toks ! i else [CHR 0x22] @ toks ! i @ [CHR 0x22]))
             \<and> (length ws \<noteq> 1 \<and> CHR 0x22 \<notin> set (toks ! i) \<and> CHR 0x5C \<notin> set (toks ! i)
                  \<longrightarrow> shlex_split (args (cmd c) ! i) = Inr [toks ! i]))"
proof -
  from ssh_cmd_of_Inr [OF SSHCommand_args [OF assms]] obtain toks qs where
    a: "assembled hname (case user of None \<Rightarrow> ''root'' | Some u \<Rightarrow> u) identity command = Inr toks"
    and q: "map_raising requote toks = Inr qs" and v: "args (cmd c) = map escape_twice qs"
    by blast
  from q have len: "length qs = length toks"
    and each: "\<And>i. i < length toks \<Longrightarrow> requote (toks ! i) = Inr (qs ! i)"
    by (simp_all add: map_raising_Inr)
  have "\<exists>ws. shlex_split (toks ! i) = Inr ws
          \<and> args (cmd c) ! i =
              concat (map (\<lambda>ch. if ch = CHR 0x5C then replicate 4 (CHR 0x5C) else [ch])
                (if length ws = 1 then toks ! i else [CHR 0x22] @ toks ! i @ [CHR 0x22]))
          \<and> (length ws \<noteq> 1 \<and> CHR 0x22 \<notin> set (toks ! i) \<and> CHR 0x5C \<notin> set (toks ! i)
               \<longrightarrow> shlex_split (args (cmd c) ! i) = Inr [toks ! i])"
    if i: "i < length toks" for i
  proof -
    from each [OF i] obtain ws where ws: "shlex_split (toks ! i) = Inr ws"
      and qi: "qs ! i = (if length ws = 1 then toks ! i else [CHR 0x22] @ toks ! i @ [CHR 0x22])"
      by (auto simp: requote_def split: sum.splits)
    from v i len have ai: "args (cmd c) ! i = escape_twice (qs ! i)" by simp
    have again: "shlex_split (args (cmd c) ! i) = Inr [toks ! i]"
      if n: "length ws \<noteq> 1" and dq: "CHR 0x22 \<notin> set (toks ! i)" and bs: "CHR 0x5C \<notin> set (toks ! i)"
    proof -
      from bs have "CHR 0x5C \<notin> set ([CHR 0x22] @ toks ! i @ [CHR 0x22])" by simp
      then have "escape_twice ([CHR 0x22] @ toks ! i @ [CHR 0x22]) = [CHR 0x22] @ toks ! i @ [CHR 0x22]"
        by (rule escape_twice_no_backslash)
      with ai qi n have "args (cmd c) ! i = [CHR 0x22] @ toks ! i @ [CHR 0x22]"
        by simp
      with shlex_split_double_quoted [OF dq bs] show ?thesis by simp
    qed
    from ws ai qi again show ?thesis
      by (simp add: escape_twice_quadruples)
  qed
  with a v len show ?thesis by auto
qed

theorem requote_then_escape_twice_witness:
  "(case SSHCommand (\<lambda>ssh_cmd. \<lparr>run_stdout = [], run_stderr = [], run_exit = 0\<rparr>)
          ''host'' None None (CmdList [''echo'', ''a b'', ''c'' @ [CHR 0x5C] @ ''d''])
          (Some ''utf-8'') False of
      Inl e \<Rightarrow> False
    | Inr c \<Rightarrow>
        length (args (cmd c)) = 20
        \<and> args (cmd c) ! 17 = ''echo''
        \<and> args (cmd c) ! 18 = [CHR 0x22] @ ''a b'' @ [CHR 0x22]
        \<and> shlex_split (args (cmd c) ! 18) = Inr [''a b'']
        \<and> args (cmd c) ! 19 = ''c'' @ [CHR 0x5C, CHR 0x5C, CHR 0x5C, CHR 0x5C] @ ''d'')"
proof -
  have "(case SSHCommand (\<lambda>ssh_cmd. \<lparr>run_stdout = [], run_stderr = [], run_exit = 0\<rparr>)
          ''host'' None None (CmdList [''echo'', ''a b'', ''c'' @ [CHR 0x5C] @ ''d''])
          (Some ''utf-8'') False of
      Inl e \<Rightarrow> False | Inr c \<Rightarrow> True)"
    by code_simp
  then obtain c where c: "SSHCommand (\<lambda>ssh_cmd. \<lparr>run_stdout = [], run_stderr = [], run_exit = 0\<rparr>)
          ''host'' None None (CmdList [''echo'', ''a b'', ''c'' @ [CHR 0x5C] @ ''d''])
          (Some ''utf-8'') False = Inr c"
    by (auto split: sum.splits)
  define T where "T = transport ''root'' ''~/.ssh/id_rsa'' ''host''
      @ [''echo'', ''a b'', ''c'' @ [CHR 0x5C] @ ''d'']"
  have toks: "assembled ''host'' ''root'' None (CmdList [''echo'', ''a b'', ''c'' @ [CHR 0x5C] @ ''d'']) = Inr T"
    unfolding T_def by code_simp
  have lenT: "length T = 20"
    and t17: "T ! 17 = ''echo''" and t18: "T ! 18 = ''a b''"
    and t19: "T ! 19 = ''c'' @ [CHR 0x5C] @ ''d''"
    by (simp_all add: T_def transport_def)
  have s17: "shlex_split ''echo'' = Inr [''echo'']"
    and s18: "shlex_split ''a b'' = Inr [''a'', ''b'']"
    and s19: "shlex_split (''c'' @ [CHR 0x5C] @ ''d'') = Inr [''cd'']"
    by code_simp+
  from requote_then_escape_twice [OF c] toks
  have len: "length (args (cmd c)) = length T"
    and each: "\<And>i. i < length T \<Longrightarrow> \<exists>ws. shlex_split (T ! i) = Inr ws
      \<and> args (cmd c) ! i =
          concat (map (\<lambda>ch. if ch = CHR 0x5C then replicate 4 (CHR 0x5C) else [ch])
            (if length ws = 1 then T ! i else [CHR 0x22] @ T ! i @ [CHR 0x22]))
      \<and> (length ws \<noteq> 1 \<and> CHR 0x22 \<notin> set (T ! i) \<and> CHR 0x5C \<notin> set (T ! i)
           \<longrightarrow> shlex_split (args (cmd c) ! i) = Inr [T ! i])"
    by auto
  from each [of 17] lenT t17 s17 have a17: "args (cmd c) ! 17 = ''echo''"
    by simp
  from each [of 18] lenT t18 s18
  have a18: "args (cmd c) ! 18 = [CHR 0x22] @ ''a b'' @ [CHR 0x22]"
    and r18: "shlex_split (args (cmd c) ! 18) = Inr [''a b'']"
    by auto
  from each [of 19] lenT t19 s19
  have a19: "args (cmd c) ! 19 = ''c'' @ [CHR 0x5C, CHR 0x5C, CHR 0x5C, CHR 0x5C] @ ''d''"
    by (simp add: numeral_eq_Suc)
  from len lenT a17 a18 r18 a19 c show ?thesis by simp
qed

text \<open>
  C4 as stated fails at the command \<^verbatim>\<open>['a\b', 'a" b"c d']\<close>. The first word is read as one
  word, \<^verbatim>\<open>ab\<close>, and is not passed through unchanged: its backslash becomes four
  backslashes, not two. The second word is read as two words, and between double quotes it is
  still read as two.
\<close>

theorem backslash_quadrupled_and_quoted_word_split:
  "(case SSHCommand (\<lambda>ssh_cmd. \<lparr>run_stdout = [], run_stderr = [], run_exit = 0\<rparr>)
          ''host'' None None
          (CmdList [''a'' @ [CHR 0x5C] @ ''b'', ''a'' @ [CHR 0x22] @ '' b'' @ [CHR 0x22] @ ''c d''])
          (Some ''utf-8'') False of
      Inl e \<Rightarrow> False
    | Inr c \<Rightarrow>
        shlex_split (''a'' @ [CHR 0x5C] @ ''b'') = Inr [''ab'']
        \<and> args (cmd c) ! 17 = ''a'' @ [CHR 0x5C, CHR 0x5C, CHR 0x5C, CHR 0x5C] @ ''b''
        \<and> args (cmd c) ! 17 \<noteq> ''a'' @ [CHR 0x5C, CHR 0x5C] @ ''b''
        \<and> args (cmd c) ! 17 \<noteq> ''a'' @ [CHR 0x5C] @ ''b''
        \<and> shlex_split (''a'' @ [CHR 0x22] @ '' b'' @ [CHR 0x22] @ ''c d'') = Inr [''a bc'', ''d'']
        \<and> args (cmd c) ! 18 = [CHR 0x22] @ ''a'' @ [CHR 0x22] @ '' b'' @ [CHR 0x22] @ ''c d'' @ [CHR 0x22]
        \<and> shlex_split (args (cmd c) ! 18) = Inr [''a'', ''bc d''])"
  by code_simp

subsection \<open>C5: \<^verbatim>\<open>run_command\<close> in the foreground\<close>

text \<open>
  C5 says that a foreground \<^verbatim>\<open>run_command\<close> waits for the command, logs exit code and
  stderr text when the exit code is not zero, and raises an error when \<^verbatim>\<open>raiseonerr\<close> is
  true. The body of \<^verbatim>\<open>run_command\<close> never reads \<^verbatim>\<open>raiseonerr\<close>. On a Unix host, for
  \<^verbatim>\<open>run_command(['false'])\<close> with every default and a remote \<^verbatim>\<open>false\<close> that exits with
  status 1 and writes \<^verbatim>\<open>no\<close> to stderr, three processes are spawned (\<^verbatim>\<open>mkdir\<close>, the probe
  for \<^verbatim>\<open>env.sh\<close>, the command), the command is waited for, the log ends with the exit code
  and the stderr text, and the command object is returned with exit code 1: nothing is
  raised. The result is the same for every value of \<^verbatim>\<open>raiseonerr\<close>.
\<close>

theorem run_command_returns_nonzero_exit_with_raiseonerr:
  "(case run_command
          (\<lambda>hist ssh_cmd. \<lparr>run_stdout = [], run_stderr = [[0x6E, 0x6F]],
                            run_exit = (if ''false'' \<in> set ssh_cmd then 1 else 0)\<rparr>)
          std_codecs
          \<lparr>hostname = ''host'', ssh_username = ''root'', ssh_key_filename = None, test_dir = ''/tmp/t'',
           env_sh_path = ''/tmp/t/env.sh'', command_prelude = ''set -e''\<rparr>
          (CmdList [''false'']) True NoData True True None False \<lparr>spawned = [], hlog = []\<rparr> of
      (Inl e, st) \<Rightarrow> False
    | (Inr c, st) \<Rightarrow>
        returncode c = Some 1
        \<and> finalized c
        \<and> drop (length (trace c) - 6) (trace c) = close_sequence
        \<and> length (spawned st) = 3
        \<and> drop 17 (last (spawned st)) =
            [''cd'', ''/tmp/t'', ''&&'', ''source'', ''/tmp/t/env.sh'', ''&&'', ''set'', ''-e'', ''&&'',
             ''('', ''false'', '')'']
        \<and> drop (length (hlog st) - 2) (hlog st) = [RETURNCODE (Some 1), STDERR [0x6E, 0x6F]])
   \<and> run_command remote py h argv set_env stdin_text log_stdout True cwd bg st
       = run_command remote py h argv set_env stdin_text log_stdout False cwd bg st"
proof
  show "run_command remote py h argv set_env stdin_text log_stdout True cwd bg st
       = run_command remote py h argv set_env stdin_text log_stdout False cwd bg st"
    by (simp add: run_command_def)
qed code_simp

subsection \<open>C6: \<^verbatim>\<open>get_file_contents\<close>\<close>

text \<open>
  C6, as amended. Take any path for which the existence probe \<^verbatim>\<open>test -f\<close> is launched.
  When the probe exits with a status other than 0 and its stderr output decodes,
  \<^verbatim>\<open>get_file_contents\<close> raises the file-not-found error \<^verbatim>\<open>IOError\<close>, and the probe is the
  only process it has spawned: no read command runs. When the probe exits with status 0, the
  read command \<^verbatim>\<open>cat\<close> is launched next, and \<^verbatim>\<open>get_file_contents\<close> returns \<^verbatim>\<open>None\<close>
  when the read command exits with a status other than 0 (and its stderr output decodes),
  the accumulated stdout bytes when it exits with 0 and no encoding is given, and their
  decoded text when an encoding is given and they decode. An stderr output that does not
  decode, or stdout bytes that do not decode in the given encoding, raise the decoding error
  in place of these results.
\<close>

theorem get_file_contents_probe_then_read:
  assumes "SSHCommand (remote (spawned st)) (hostname h) (Some (ssh_username h)) (ssh_key_filename h)
             (CmdStr (''test -f '' @ filename)) (Some ''utf-8'') True = Inr p"
  shows "(exit_status (cmd p) \<noteq> 0 \<longrightarrow>
            fst (get_file_contents remote py h filename enc st) =
              (case stderr_text py (finalize p) of Inl e \<Rightarrow> Inl e | Inr t \<Rightarrow> Inl IOError)
          \<and> spawned (snd (get_file_contents remote py h filename enc st)) = spawned st @ [args (cmd p)])
       \<and> (exit_status (cmd p) = 0 \<longrightarrow>
            (\<exists>r. SSHCommand (remote (spawned st @ [args (cmd p)])) (hostname h) (Some (ssh_username h))
                    (ssh_key_filename h) (CmdStr (''cat '' @ filename)) None True = Inr r
               \<and> spawned (snd (get_file_contents remote py h filename enc st))
                   = spawned st @ [args (cmd p), args (cmd r)]
               \<and> fst (get_file_contents remote py h filename enc st) =
                   (if exit_status (cmd r) \<noteq> 0 then
                      (case stderr_text py (finalize r) of Inl e \<Rightarrow> Inl e | Inr t \<Rightarrow> Inr PyNone)
                    else if configured enc then
                      (case decode py (encoding_or_default enc) (concat (out_data (finalize r))) of
                         Inl e \<Rightarrow> Inl e
                       | Inr t \<Rightarrow> Inr (Str t))
                    else Inr (Bytes (concat (out_data (finalize r)))))))"
proof (intro conjI impI)
  let ?st1 = "st\<lparr>hlog := hlog st @ [STAT filename]\<rparr>"
  have probe: "SSHCommand (remote (spawned ?st1)) (hostname h) (Some (ssh_username h))
      (ssh_key_filename h) (CmdStr (''test -f '' @ filename)) (Some ''utf-8'') True = Inr p"
    using assms by simp
  note run1 = exec_command_foreground [where remote = remote and st = ?st1 and h = h and py = py, OF probe]
  {
    assume ne: "exit_status (cmd p) \<noteq> 0"
    from ne run1 show "fst (get_file_contents remote py h filename enc st) =
        (case stderr_text py (finalize p) of Inl e \<Rightarrow> Inl e | Inr t \<Rightarrow> Inl IOError)"
      by (simp add: get_file_contents_def file_exists_def Let_def finalize_returncode
          split: sum.splits)
    from ne run1 show "spawned (snd (get_file_contents remote py h filename enc st))
        = spawned st @ [args (cmd p)]"
      by (simp add: get_file_contents_def file_exists_def Let_def finalize_returncode
          split: sum.splits)
  }
  {
    assume z: "exit_status (cmd p) = 0"
    let ?st2 = "st\<lparr>spawned := spawned st @ [args (cmd p)],
        hlog := hlog st @ [STAT filename, CMD_argv (args (cmd p)), RETURNCODE (Some 0), GET filename]\<rparr>"
    from read_command_builds [OF assms] obtain r where
      r: "SSHCommand (remote (spawned st @ [args (cmd p)])) (hostname h) (Some (ssh_username h))
            (ssh_key_filename h) (CmdStr (''cat '' @ filename)) None True = Inr r"
      by blast
    then have r2: "SSHCommand (remote (spawned ?st2)) (hostname h) (Some (ssh_username h))
            (ssh_key_filename h) (CmdStr (''cat '' @ filename)) None True = Inr r"
      by simp
    note run2 = exec_command_foreground [where remote = remote and st = ?st2 and h = h and py = py, OF r2]
    from z run1 have exists: "file_exists remote py h filename st =
        (Inr True, st\<lparr>spawned := spawned st @ [args (cmd p)],
           hlog := hlog st @ [STAT filename, CMD_argv (args (cmd p)), RETURNCODE (Some 0)]\<rparr>)"
      by (simp add: file_exists_def Let_def finalize_returncode)
    have sp: "spawned (snd (get_file_contents remote py h filename enc st))
        = spawned st @ [args (cmd p), args (cmd r)]"
      using run2
      by (simp add: get_file_contents_def exists Let_def split: sum.splits)
    have res: "fst (get_file_contents remote py h filename enc st) =
        (if exit_status (cmd r) \<noteq> 0 then
           (case stderr_text py (finalize r) of Inl e \<Rightarrow> Inl e | Inr t \<Rightarrow> Inr PyNone)
         else if configured enc then
           (case decode py (encoding_or_default enc) (concat (out_data (finalize r))) of
              Inl e \<Rightarrow> Inl e
            | Inr t \<Rightarrow> Inr (Str t))
         else Inr (Bytes (concat (out_data (finalize r)))))"
      using run2
      by (simp add: get_file_contents_def exists Let_def not_returncode_def finalize_returncode
          split: sum.splits)
    from r sp res
    show "\<exists>r. SSHCommand (remote (spawned st @ [args (cmd p)])) (hostname h) (Some (ssh_username h))
                    (ssh_key_filename h) (CmdStr (''cat '' @ filename)) None True = Inr r
               \<and> spawned (snd (get_file_contents remote py h filename enc st))
                   = spawned st @ [args (cmd p), args (cmd r)]
               \<and> fst (get_file_contents remote py h filename enc st) =
                   (if exit_status (cmd r) \<noteq> 0 then
                      (case stderr_text py (finalize r) of Inl e \<Rightarrow> Inl e | Inr t \<Rightarrow> Inr PyNone)
                    else if configured enc then
                      (case decode py (encoding_or_default enc) (concat (out_data (finalize r))) of
                         Inl e \<Rightarrow> Inl e
                       | Inr t \<Rightarrow> Inr (Str t))
                    else Inr (Bytes (concat (out_data (finalize r)))))"
      by blast
  }
qed

theorem get_file_contents_probe_then_read_witness:
  "fst (get_file_contents
          (\<lambda>hist ssh_cmd. if hist = [] then \<lparr>run_stdout = [], run_stderr = [], run_exit = 0\<rparr>
                          else \<lparr>run_stdout = [[0x74, 0x65], [0x73, 0x74]], run_stderr = [], run_exit = 0\<rparr>)
          std_codecs
          \<lparr>hostname = ''host'', ssh_username = ''root'', ssh_key_filename = None, test_dir = ''/tmp/t'',
           env_sh_path = ''/tmp/t/env.sh'', command_prelude = ''set -e''\<rparr>
          ''/tmp/test.txt'' (Some ''utf-8'') \<lparr>spawned = [], hlog = []\<rparr>)
     = Inr (Str [0x74, 0x65, 0x73, 0x74])
   \<and> length (spawned (snd (get_file_contents
          (\<lambda>hist ssh_cmd. if hist = [] then \<lparr>run_stdout = [], run_stderr = [], run_exit = 0\<rparr>
                          else \<lparr>run_stdout = [[0x74, 0x65], [0x73, 0x74]], run_stderr = [], run_exit = 0\<rparr>)
          std_codecs
          \<lparr>hostname = ''host'', ssh_username = ''root'', ssh_key_filename = None, test_dir = ''/tmp/t'',
           env_sh_path = ''/tmp/t/env.sh'', command_prelude = ''set -e''\<rparr>
          ''/tmp/test.txt'' (Some ''utf-8'') \<lparr>spawned = [], hlog = []\<rparr>))) = 2"
proof -
  define remote :: remote where
    "remote = (\<lambda>hist ssh_cmd. if hist = [] then \<lparr>run_stdout = [], run_stderr = [], run_exit = 0\<rparr>
                          else \<lparr>run_stdout = [[0x74, 0x65], [0x73, 0x74]], run_stderr = [], run_exit = 0\<rparr>)"
  define h where
    "h = \<lparr>hostname = ''host'', ssh_username = ''root'', ssh_key_filename = None, test_dir = ''/tmp/t'',
           env_sh_path = ''/tmp/t/env.sh'', command_prelude = ''set -e''\<rparr>"
  define st where "st = \<lparr>spawned = [], hlog = []\<rparr>"
  have "(case ssh_cmd_of ''host'' ''root'' None (CmdStr (''test -f '' @ ''/tmp/test.txt'')) of
           Inl e \<Rightarrow> False | Inr v \<Rightarrow> True)"
    by code_simp
  then obtain v where
    "ssh_cmd_of (hostname h) (case Some (ssh_username h) of None \<Rightarrow> ''root'' | Some u \<Rightarrow> u)
       (ssh_key_filename h) (CmdStr (''test -f '' @ ''/tmp/test.txt'')) = Inr v"
    by (auto simp: h_def split: sum.splits)
  from SSHCommand_builds [OF this] obtain p where
    p: "SSHCommand (remote (spawned st)) (hostname h) (Some (ssh_username h)) (ssh_key_filename h)
          (CmdStr (''test -f '' @ ''/tmp/test.txt'')) (Some ''utf-8'') True = Inr p"
    by blast
  from SSHCommand_running [OF p] have zero: "exit_status (cmd p) = 0"
    by (simp add: remote_def st_def)
  from get_file_contents_probe_then_read [where remote = remote and st = st and h = h
      and py = std_codecs and enc = "Some ''utf-8''", OF p] zero
  obtain r where
    r: "SSHCommand (remote (spawned st @ [args (cmd p)])) (hostname h) (Some (ssh_username h))
          (ssh_key_filename h) (CmdStr (''cat '' @ ''/tmp/test.txt'')) None True = Inr r"
    and sp: "spawned (snd (get_file_contents remote std_codecs h ''/tmp/test.txt'' (Some ''utf-8'') st))
          = spawned st @ [args (cmd p), args (cmd r)]"
    and res: "fst (get_file_contents remote std_codecs h ''/tmp/test.txt'' (Some ''utf-8'') st) =
          (if exit_status (cmd r) \<noteq> 0 then
             (case stderr_text std_codecs (finalize r) of Inl e \<Rightarrow> Inl e | Inr t \<Rightarrow> Inr PyNone)
           else if configured (Some ''utf-8'') then
             (case decode std_codecs (encoding_or_default (Some ''utf-8'')) (concat (out_data (finalize r))) of
                Inl e \<Rightarrow> Inl e
              | Inr t \<Rightarrow> Inr (Str t))
           else Inr (Bytes (concat (out_data (finalize r)))))"
    by blast
  note init = SSHCommand_running [OF r]
  from init have rz: "exit_status (cmd r) = 0"
    by (simp add: remote_def)
  from init have out: "concat (out_data (finalize r)) = [0x74, 0x65, 0x73, 0x74]"
    by (simp add: finalize_out_data remote_def)
  have dec: "decode std_codecs ''utf-8'' [0x74, 0x65, 0x73, 0x74] = Inr [0x74, 0x65, 0x73, 0x74]"
    by (simp add: std_codecs_def std_decode_def)
  from res rz out dec
  have "fst (get_file_contents remote std_codecs h ''/tmp/test.txt'' (Some ''utf-8'') st)
      = Inr (Str [0x74, 0x65, 0x73, 0x74])"
    by (simp add: configured_def encoding_or_default_def)
  moreover from sp
  have "length (spawned (snd (get_file_contents remote std_codecs h ''/tmp/test.txt'' (Some ''utf-8'') st))) = 2"
    by (simp add: st_def)
  ultimately show ?thesis
    unfolding remote_def h_def st_def by simp
qed

text \<open>
  C6 as stated fails where the probe exits with status 1 after writing the byte \<^verbatim>\<open>0xFF\<close> to
  stderr: \<^verbatim>\<open>_exec_command\<close> reads \<^verbatim>\<open>stderr_text\<close> for its log line, and
  \<^verbatim>\<open>get_file_contents\<close> raises \<^verbatim>\<open>UnicodeDecodeError\<close>, not the file-not-found error.
\<close>

theorem probe_with_undecodable_stderr_raises_decode_error:
  "(case get_file_contents
          (\<lambda>hist ssh_cmd. \<lparr>run_stdout = [], run_stderr = [[0xFF]], run_exit = 1\<rparr>)
          std_codecs
          \<lparr>hostname = ''host'', ssh_username = ''root'', ssh_key_filename = None, test_dir = ''/tmp/t'',
           env_sh_path = ''/tmp/t/env.sh'', command_prelude = ''set -e''\<rparr>
          ''/tmp/missing.txt'' None \<lparr>spawned = [], hlog = []\<rparr> of
      (r, st) \<Rightarrow> r = Inl UnicodeDecodeError \<and> r \<noteq> Inl IOError \<and> length (spawned st) = 1)"
  by code_simp

subsection \<open>C7: the accessors before \<^verbatim>\<open>wait()\<close>\<close>

text \<open>
  C7. For every command whose exit code is not yet known, and after any further calls and
  drainer steps other than \<^verbatim>\<open>wait()\<close>, the exit code is still unknown and both accessors
  return the empty string and do not raise, whatever the drainers have accumulated: output
  is available only after \<^verbatim>\<open>wait()\<close>.
\<close>

theorem accessors_empty_until_waited:
  assumes "returncode c = None" and "Wait \<notin> set as"
  shows "returncode (fold (perform pkg py) as c) = None
       \<and> stdout_text py (fold (perform pkg py) as c) = Inr (Str [])
       \<and> stderr_text py (fold (perform pkg py) as c) = Inr []"
  using fold_keeps_running [OF assms]
  by (simp add: stdout_text_def stderr_text_def)

theorem accessors_empty_until_waited_witness:
  "(case SSHCommand (\<lambda>ssh_cmd. \<lparr>run_stdout = [[0x68, 0x69], [0x0A]], run_stderr = [[0xFF]], run_exit = 1\<rparr>)
          ''host'' None None (CmdList [''echo'', ''hi'']) (Some ''utf-8'') True of
      Inl e \<Rightarrow> False
    | Inr c \<Rightarrow>
        returncode c = None
        \<and> Wait \<notin> set [OutThreadStep, Send (Text [0x68]), ErrThreadStep, SetStdout [0x68], OutThreadStep]
        \<and> stdout_text std_codecs
            (fold (perform Mytest std_codecs)
               [OutThreadStep, Send (Text [0x68]), ErrThreadStep, SetStdout [0x68], OutThreadStep] c)
            = Inr (Str [])
        \<and> stderr_text std_codecs
            (fold (perform Mytest std_codecs)
               [OutThreadStep, Send (Text [0x68]), ErrThreadStep, SetStdout [0x68], OutThreadStep] c)
            = Inr [])"
proof -
  have "(case SSHCommand (\<lambda>ssh_cmd. \<lparr>run_stdout = [[0x68, 0x69], [0x0A]], run_stderr = [[0xFF]], run_exit = 1\<rparr>)
          ''host'' None None (CmdList [''echo'', ''hi'']) (Some ''utf-8'') True of
      Inl e \<Rightarrow> False | Inr c \<Rightarrow> True)"
    by code_simp
  then obtain c where c: "SSHCommand (\<lambda>ssh_cmd. \<lparr>run_stdout = [[0x68, 0x69], [0x0A]], run_stderr = [[0xFF]], run_exit = 1\<rparr>)
          ''host'' None None (CmdList [''echo'', ''hi'']) (Some ''utf-8'') True = Inr c"
    by (auto split: sum.splits)
  from SSHCommand_running [OF c] have running: "returncode c = None" by simp
  have nowait: "Wait \<notin> set [OutThreadStep, Send (Text [0x68]), ErrThreadStep, SetStdout [0x68], OutThreadStep]"
    by simp
  from accessors_empty_until_waited [OF running nowait, of Mytest std_codecs] running c
  show ?thesis by simp
qed

subsection \<open>C8: the result of a finalized command\<close>

text \<open>
  C8, as amended. Once \<^verbatim>\<open>wait()\<close> has finalized a running command, no sequence of calls of
  its public methods and of drainer steps changes the accumulated stderr chunks or the stored
  exit code, and none changes the accumulated stdout chunks either, except the setter of
  \<^verbatim>\<open>stdout_text\<close> that \<^verbatim>\<open>mytest_multihost\<close> provides.
\<close>

theorem finalized_result_read_only:
  assumes "returncode c0 = None"
  shows "finalized (perform pkg py Wait c0)
       \<and> err_data (fold (perform pkg py) as (perform pkg py Wait c0)) = err_data (perform pkg py Wait c0)
       \<and> returncode (fold (perform pkg py) as (perform pkg py Wait c0))
           = returncode (perform pkg py Wait c0)
       \<and> (pkg = Pytest \<or> (\<forall>v. SetStdout v \<notin> set as)
            \<longrightarrow> out_data (fold (perform pkg py) as (perform pkg py Wait c0))
                = out_data (perform pkg py Wait c0))"
  using wait_finalizes [OF assms, of pkg py]
    fold_of_finalized [OF wait_finalizes [OF assms, of pkg py], of pkg py as]
  by simp

theorem finalized_result_read_only_witness:
  "(case SSHCommand (\<lambda>ssh_cmd. \<lparr>run_stdout = [[0x68, 0x69], [0x0A]], run_stderr = [[0x6E, 0x6F]], run_exit = 0\<rparr>)
          ''host'' None None (CmdList [''echo'', ''hi'']) (Some ''utf-8'') True of
      Inl e \<Rightarrow> False
    | Inr c \<Rightarrow>
        returncode c = None
        \<and> (\<forall>v. SetStdout v \<notin> set [Wait, Send (Text [0x68]), GetStdout, OutThreadStep, Wait])
        \<and> out_data (fold (perform Mytest std_codecs)
              [Wait, Send (Text [0x68]), GetStdout, OutThreadStep, Wait]
              (perform Mytest std_codecs Wait c))
            = out_data (perform Mytest std_codecs Wait c)
        \<and> returncode (fold (perform Mytest std_codecs)
              [Wait, Send (Text [0x68]), GetStdout, OutThreadStep, Wait]
              (perform Mytest std_codecs Wait c))
            = returncode (perform Mytest std_codecs Wait c))"
proof -
  have "(case SSHCommand (\<lambda>ssh_cmd. \<lparr>run_stdout = [[0x68, 0x69], [0x0A]], run_stderr = [[0x6E, 0x6F]], run_exit = 0\<rparr>)
          ''host'' None None (CmdList [''echo'', ''hi'']) (Some ''utf-8'') True of
      Inl e \<Rightarrow> False | Inr c \<Rightarrow> True)"
    by code_simp
  then obtain c where c: "SSHCommand (\<lambda>ssh_cmd. \<lparr>run_stdout = [[0x68, 0x69], [0x0A]], run_stderr = [[0x6E, 0x6F]], run_exit = 0\<rparr>)
          ''host'' None None (CmdList [''echo'', ''hi'']) (Some ''utf-8'') True = Inr c"
    by (auto split: sum.splits)
  from SSHCommand_running [OF c] have running: "returncode c = None" by simp
  have nosetter: "\<forall>v. SetStdout v \<notin> set [Wait, Send (Text [0x68]), GetStdout, OutThreadStep, Wait]"
    by simp
  from finalized_result_read_only [OF running, of Mytest std_codecs
      "[Wait, Send (Text [0x68]), GetStdout, OutThreadStep, Wait]"] nosetter running c
  show ?thesis by simp
qed

text \<open>
  C8 as stated fails in \<^verbatim>\<open>mytest_multihost\<close>: after \<^verbatim>\<open>wait()\<close> has finalized a command
  that wrote \<^verbatim>\<open>a\<close> to stdout, assigning \<^verbatim>\<open>"b"\<close> to \<^verbatim>\<open>stdout_text\<close> replaces the
  accumulated chunks.
\<close>

theorem setter_changes_finalized_stdout:
  "(case SSHCommand (\<lambda>ssh_cmd. \<lparr>run_stdout = [[0x61]], run_stderr = [], run_exit = 0\<rparr>)
          ''host'' None None (CmdList [''echo'', ''a'']) (Some ''utf-8'') False of
      Inl e \<Rightarrow> False
    | Inr c \<Rightarrow>
        finalized (perform Mytest std_codecs Wait c)
        \<and> out_data (perform Mytest std_codecs Wait c) = [[0x61]]
        \<and> out_data (perform Mytest std_codecs (SetStdout [0x62]) (perform Mytest std_codecs Wait c))
            = [[0x62]])"
  by code_simp

subsection \<open>C9: the transport options\<close>

text \<open>
  C9, as amended. For every launch whose user, identity file and host name are plain words
  (not empty, no blank, quote or backslash), the vector handed to \<^verbatim>\<open>Popen\<close> starts with
  exactly these seventeen words: \<^verbatim>\<open>ssh -T\<close>, the login name (\<^verbatim>\<open>root\<close> when no user is
  given), the identity file (\<^verbatim>\<open>~/.ssh/id_rsa\<close> when none is given), the options
  \<^verbatim>\<open>UserKnownHostsFile=/dev/null\<close>, \<^verbatim>\<open>ControlMaster=auto\<close>,
  \<^verbatim>\<open>StrictHostKeyChecking=no\<close>, \<^verbatim>\<open>ControlPersist=10m\<close> and
  \<^verbatim>\<open>ControlPath=/tmp/mytest-%r@%h:%p\<close> (the placeholders of \<^verbatim>\<open>ssh\<close> for remote user,
  host and port), and the host name. No port is passed, which leaves \<^verbatim>\<open>ssh\<close> its default.
\<close>

theorem transport_options:
  assumes "case user of None \<Rightarrow> True | Some u \<Rightarrow> plain u"
    and "case identity of None \<Rightarrow> True | Some i \<Rightarrow> plain i"
    and "plain hname"
    and "SSHCommand spawn hname user identity command enc lg = Inr c"
  shows "take 17 (args (cmd c)) =
           [''ssh'', ''-T'',
            ''-l'', (case user of None \<Rightarrow> ''root'' | Some u \<Rightarrow> u),
            ''-i'', (case identity of None \<Rightarrow> ''~/.ssh/id_rsa'' | Some i \<Rightarrow> i),
            ''-o'', ''UserKnownHostsFile=/dev/null'',
            ''-o'', ''ControlMaster=auto'',
            ''-o'', ''StrictHostKeyChecking=no'',
            ''-o'', ''ControlPersist=10m'',
            ''-o'', ''ControlPath=/tmp/mytest-%r@%h:%p'',
            hname]"
proof -
  have pu: "plain (case user of None \<Rightarrow> ''root'' | Some u \<Rightarrow> u)"
    using assms(1) by (cases user) (simp_all add: plain_def plain_char_def char_classes)
  from ssh_cmd_of_plain [OF pu assms(2,3) SSHCommand_args [OF assms(4)]]
  show ?thesis by (simp add: transport_def)
qed

theorem transport_options_witness:
  "(case SSHCommand (\<lambda>ssh_cmd. \<lparr>run_stdout = [], run_stderr = [], run_exit = 0\<rparr>)
          ''host.example'' None None (CmdStr ''echo hello'') (Some ''utf-8'') False of
      Inl e \<Rightarrow> False
    | Inr c \<Rightarrow>
        plain ''host.example''
        \<and> take 17 (args (cmd c)) =
            [''ssh'', ''-T'', ''-l'', ''root'', ''-i'', ''~/.ssh/id_rsa'',
             ''-o'', ''UserKnownHostsFile=/dev/null'',
             ''-o'', ''ControlMaster=auto'',
             ''-o'', ''StrictHostKeyChecking=no'',
             ''-o'', ''ControlPersist=10m'',
             ''-o'', ''ControlPath=/tmp/mytest-%r@%h:%p'',
             ''host.example''])"
proof -
  have "(case SSHCommand (\<lambda>ssh_cmd. \<lparr>run_stdout = [], run_stderr = [], run_exit = 0\<rparr>)
          ''host.example'' None None (CmdStr ''echo hello'') (Some ''utf-8'') False of
      Inl e \<Rightarrow> False | Inr c \<Rightarrow> True)"
    by code_simp
  then obtain c where c: "SSHCommand (\<lambda>ssh_cmd. \<lparr>run_stdout = [], run_stderr = [], run_exit = 0\<rparr>)
          ''host.example'' None None (CmdStr ''echo hello'') (Some ''utf-8'') False = Inr c"
    by (auto split: sum.splits)
  have ph: "plain ''host.example''"
    by (simp add: plain_def plain_char_def char_classes)
  from transport_options [OF _ _ ph c] ph c show ?thesis by simp
qed

text \<open>
  C9 as stated, for every launch, fails: with the user \<^verbatim>\<open>'x\<close> and the host name
  \<^verbatim>\<open>y'\<close> the two quotes enclose the rest of the format string, and the launch has a vector
  of five words with none of the options.
\<close>

theorem quoted_names_swallow_options:
  "(case SSHCommand (\<lambda>ssh_cmd. \<lparr>run_stdout = [], run_stderr = [], run_exit = 0\<rparr>)
          (''y'' @ [CHR 0x27]) (Some ([CHR 0x27] @ ''x'')) None (CmdList [''ls''])
          (Some ''utf-8'') False of
      Inl e \<Rightarrow> False
    | Inr c \<Rightarrow>
        length (args (cmd c)) = 5
        \<and> take 3 (args (cmd c)) = [''ssh'', ''-T'', ''-l'']
        \<and> ''-i'' \<notin> set (args (cmd c))
        \<and> ''-o'' \<notin> set (args (cmd c))
        \<and> ''StrictHostKeyChecking=no'' \<notin> set (args (cmd c))
        \<and> ''ControlMaster=auto'' \<notin> set (args (cmd c)))"
  by code_simp

subsection \<open>C10: words the tokenizer rejects, and words it reads as nothing\<close>

text \<open>
  C10. The quoting step applies \<^verbatim>\<open>shlex.split\<close> to every word of the assembled vector.
  So whenever one of these words makes \<^verbatim>\<open>shlex.split\<close> raise, the construction of the
  command raises the \<^verbatim>\<open>ValueError\<close> of the tokenizer, no command object exists, and the
  host has spawned no process. This is the case for every word with an unbalanced quote: an
  odd number of one quote character, no other quote character and no backslash. A word of
  blanks only (the empty word is one) is read as no word at all and is put between double
  quotes.
\<close>

theorem tokenizer_rejects_or_wraps:
  "(assembled hname (case user of None \<Rightarrow> ''root'' | Some u \<Rightarrow> u) identity command = Inr toks
      \<and> x \<in> set toks \<and> shlex_split x = Inl err
    \<longrightarrow> SSHCommand spawn hname user identity command enc lg = Inl (ValueError ''No closing quotation'')
        \<or> SSHCommand spawn hname user identity command enc lg = Inl (ValueError ''No escaped character''))
   \<and> (SSHCommand (remote (spawned st)) (hostname h) (Some (ssh_username h)) (ssh_key_filename h)
          command enc True = Inl err
    \<longrightarrow> exec_command remote py h command stdin_data bg enc st = (Inl err, st))
   \<and> (qc \<in> set quotes \<and> odd (count_list s qc)
      \<and> list_all (\<lambda>ch. ch \<notin> set escape \<and> (ch \<in> set quotes \<longrightarrow> ch = qc)) s
    \<longrightarrow> shlex_split s = Inl (ValueError ''No closing quotation''))
   \<and> (list_all (\<lambda>ch. ch \<in> set whitespace) b
    \<longrightarrow> shlex_split b = Inr [] \<and> requote b = Inr ([CHR 0x22] @ b @ [CHR 0x22]))"
proof (intro conjI impI)
  assume "assembled hname (case user of None \<Rightarrow> ''root'' | Some u \<Rightarrow> u) identity command = Inr toks
      \<and> x \<in> set toks \<and> shlex_split x = Inl err"
  then have a: "assembled hname (case user of None \<Rightarrow> ''root'' | Some u \<Rightarrow> u) identity command = Inr toks"
    and x: "x \<in> set toks" and e: "shlex_split x = Inl err"
    by simp_all
  from e have "requote x = Inl err" by (simp add: requote_def)
  from map_raising_Inl [of x toks requote err, OF x this] obtain e' y where
    m: "map_raising requote toks = Inl e'" and y: "requote y = Inl e'"
    by blast
  from y have "shlex_split y = Inl e'"
    by (simp add: requote_def split: sum.splits)
  then have "e' = ValueError ''No closing quotation'' \<or> e' = ValueError ''No escaped character''"
    unfolding shlex_split_def by (rule read_tokens_raises_ValueError)
  moreover from a m
  have "ssh_cmd_of hname (case user of None \<Rightarrow> ''root'' | Some u \<Rightarrow> u) identity command = Inl e'"
    by (simp add: ssh_cmd_of_def and_then_def)
  then have "SSHCommand spawn hname user identity command enc lg = Inl e'"
    by (rule SSHCommand_Inl)
  ultimately show "SSHCommand spawn hname user identity command enc lg = Inl (ValueError ''No closing quotation'')
      \<or> SSHCommand spawn hname user identity command enc lg = Inl (ValueError ''No escaped character'')"
    by auto
next
  assume "SSHCommand (remote (spawned st)) (hostname h) (Some (ssh_username h)) (ssh_key_filename h)
          command enc True = Inl err"
  then show "exec_command remote py h command stdin_data bg enc st = (Inl err, st)"
    by (simp add: exec_command_def)
next
  assume "qc \<in> set quotes \<and> odd (count_list s qc)
      \<and> list_all (\<lambda>ch. ch \<notin> set escape \<and> (ch \<in> set quotes \<longrightarrow> ch = qc)) s"
  then show "shlex_split s = Inl (ValueError ''No closing quotation'')"
    using shlex_split_unbalanced [of qc s] by blast
next
  assume "list_all (\<lambda>ch. ch \<in> set whitespace) b"
  from requote_blank_only [OF this]
  show "shlex_split b = Inr []" and "requote b = Inr ([CHR 0x22] @ b @ [CHR 0x22])"
    by simp_all
qed

theorem tokenizer_rejects_or_wraps_witness:
  "shlex_split (''it'' @ [CHR 0x27] @ ''s'') = Inl (ValueError ''No closing quotation'')
   \<and> SSHCommand (\<lambda>ssh_cmd. \<lparr>run_stdout = [], run_stderr = [], run_exit = 0\<rparr>)
        ''host'' None None (CmdList [''echo'', ''it'' @ [CHR 0x27] @ ''s'']) (Some ''utf-8'') False
      = Inl (ValueError ''No closing quotation'')
   \<and> exec_command (\<lambda>hist ssh_cmd. \<lparr>run_stdout = [], run_stderr = [], run_exit = 0\<rparr>) std_codecs
        \<lparr>hostname = ''host'', ssh_username = ''root'', ssh_key_filename = None, test_dir = ''/tmp/t'',
         env_sh_path = ''/tmp/t/env.sh'', command_prelude = ''set -e''\<rparr>
        (CmdList [''echo'', ''it'' @ [CHR 0x27] @ ''s'']) NoData False (Some ''utf-8'')
        \<lparr>spawned = [], hlog = []\<rparr>
      = (Inl (ValueError ''No closing quotation''), \<lparr>spawned = [], hlog = []\<rparr>)
   \<and> requote ''  '' = Inr ([CHR 0x22] @ ''  '' @ [CHR 0x22])"
proof -
  define T where "T = transport ''root'' ''~/.ssh/id_rsa'' ''host'' @ [''echo'', ''it'' @ [CHR 0x27] @ ''s'']"
  have toks: "assembled ''host'' (case None of None \<Rightarrow> ''root'' | Some u \<Rightarrow> u) None
      (CmdList [''echo'', ''it'' @ [CHR 0x27] @ ''s'']) = Inr T"
    unfolding T_def by code_simp
  have mem: "''it'' @ [CHR 0x27] @ ''s'' \<in> set T"
    by (simp add: T_def)
  have q: "CHR 0x27 \<in> set quotes" and odd: "odd (count_list (''it'' @ [CHR 0x27] @ ''s'') (CHR 0x27))"
    and others: "list_all (\<lambda>ch. ch \<notin> set escape \<and> (ch \<in> set quotes \<longrightarrow> ch = CHR 0x27))
        (''it'' @ [CHR 0x27] @ ''s'')"
    by (simp_all add: char_classes)
  have blank: "list_all (\<lambda>ch. ch \<in> set whitespace) ''  ''"
    by (simp add: char_classes)
  note inst = tokenizer_rejects_or_wraps [where hname = "''host''" and user = None
      and identity = None and command = "CmdList [''echo'', ''it'' @ [CHR 0x27] @ ''s'']"
      and toks = T and x = "''it'' @ [CHR 0x27] @ ''s''"
      and err = "ValueError ''No closing quotation''"
      and spawn = "\<lambda>ssh_cmd. \<lparr>run_stdout = [], run_stderr = [], run_exit = 0\<rparr>"
      and enc = "Some ''utf-8''" and qc = "CHR 0x27" and s = "''it'' @ [CHR 0x27] @ ''s''"
      and b = "''  ''"]
  from inst q odd others
  have split: "shlex_split (''it'' @ [CHR 0x27] @ ''s'') = Inl (ValueError ''No closing quotation'')"
    by blast
  have exact: "SSHCommand (\<lambda>ssh_cmd. \<lparr>run_stdout = [], run_stderr = [], run_exit = 0\<rparr>)
        ''host'' None None (CmdList [''echo'', ''it'' @ [CHR 0x27] @ ''s'']) (Some ''utf-8'') lg
      = Inl (ValueError ''No closing quotation'')" for lg
  proof -
    have "SSHCommand (\<lambda>ssh_cmd. \<lparr>run_stdout = [], run_stderr = [], run_exit = 0\<rparr>)
        ''host'' None None (CmdList [''echo'', ''it'' @ [CHR 0x27] @ ''s'']) (Some ''utf-8'') lg
      \<noteq> Inl (ValueError ''No escaped character'')"
      by (cases lg) (simp_all, code_simp+)
    with inst [where lg = lg] toks mem split show ?thesis by blast
  qed
  have host: "exec_command (\<lambda>hist ssh_cmd. \<lparr>run_stdout = [], run_stderr = [], run_exit = 0\<rparr>) std_codecs
        \<lparr>hostname = ''host'', ssh_username = ''root'', ssh_key_filename = None, test_dir = ''/tmp/t'',
         env_sh_path = ''/tmp/t/env.sh'', command_prelude = ''set -e''\<rparr>
        (CmdList [''echo'', ''it'' @ [CHR 0x27] @ ''s'']) NoData False (Some ''utf-8'')
        \<lparr>spawned = [], hlog = []\<rparr>
      = (Inl (ValueError ''No closing quotation''), \<lparr>spawned = [], hlog = []\<rparr>)"
    by code_simp
  from inst blank
  have wrap: "requote ''  '' = Inr ([CHR 0x22] @ ''  '' @ [CHR 0x22])"
    by blast
  from split exact [of False] host wrap show ?thesis by simp
qed

end
